theory Spec2Isabelle
  imports Main "HOL-Library.AList" "HOL-Library.Multiset" "HOL-Library.Word"
begin

section \<open>The file-list codec of db.c\<close>

subsection \<open>Path splitting\<close>

text \<open>
  Modelled from the spec: \<open>g_path_get_dirname\<close> and \<open>g_path_get_basename\<close> are GLib's,
  called by \<open>package_files_to_hash\<close> and not part of the repository. They follow the standard
  path-splitting rules the spec names: a path with no separator has dirname \<open>.\<close>, the
  empty path has basename \<open>.\<close>, a path of separators only has dirname and basename
  \<open>/\<close>, trailing separators are not part of the basename, and the dirname is the
  path before its last separator without the separators that end it.
\<close>

definition G_IS_DIR_SEPARATOR :: "char \<Rightarrow> bool" where
  "G_IS_DIR_SEPARATOR c = (c = CHR ''/'')"

definition g_path_get_basename :: "string \<Rightarrow> string" where
  "g_path_get_basename path =
     (if path = [] then ''.''
      else let upto_last_nonslash = dropWhile G_IS_DIR_SEPARATOR (rev path)
           in if upto_last_nonslash = [] then ''/''
              else rev (takeWhile (\<lambda>c. \<not> G_IS_DIR_SEPARATOR c) upto_last_nonslash))"

definition g_path_get_dirname :: "string \<Rightarrow> string" where
  "g_path_get_dirname path =
     (if CHR ''/'' \<notin> set path then ''.''
      else let upto_base = dropWhile G_IS_DIR_SEPARATOR
                             (dropWhile (\<lambda>c. \<not> G_IS_DIR_SEPARATOR c) (rev path))
           in if upto_base = [] then ''/'' else rev upto_base)"

subsection \<open>package_files_to_hash\<close>

text \<open>
  \<open>PackageFile\<close> (package.h) has the two string fields \<open>type\<close> and \<open>name\<close>; the
  fields carry the prefix \<open>file_\<close> here, since several structs have a field \<open>name\<close>.
\<close>

record PackageFile =
  file_type :: string
  file_name :: string

record EncodedPackageFile =
  files :: string
  types :: string

definition encoded_package_file_new :: EncodedPackageFile where
  "encoded_package_file_new = \<lparr>files = [], types = []\<rparr>"

text \<open>
  The \<open>GHashTable\<close> keyed by the directory string is an association list with one
  entry per key: \<open>g_hash_table_lookup\<close> is \<open>map_of\<close>, \<open>g_hash_table_insert\<close> of a new
  key adds an entry, and the appends to the buffers of an entry found change it in
  place (\<open>AList.update\<close> does both). The order of the list stands for the iteration
  order of the table, which GLib leaves open; no statement below depends on it.
\<close>

type_synonym files_hash = "(string \<times> EncodedPackageFile) list"

text \<open>The body of the \<open>for\<close> loop, for one \<open>file\<close> of the list.\<close>

definition package_files_to_hash_body :: "PackageFile \<Rightarrow> files_hash \<Rightarrow> files_hash" where
  "package_files_to_hash_body file hash =
     (let dir = g_path_get_dirname (file_name file);
          name = g_path_get_basename (file_name file);
          enc = (case map_of hash dir of
                   None \<Rightarrow> encoded_package_file_new
                 | Some e \<Rightarrow> e);
          enc = (if length (files enc) \<noteq> 0 then enc\<lparr>files := files enc @ ''/''\<rparr> else enc);
          enc = enc\<lparr>files := files enc @ name\<rparr>;
          enc = (if file_type file = ''dir'' then enc\<lparr>types := types enc @ ''d''\<rparr>
                 else if file_type file = ''file'' then enc\<lparr>types := types enc @ ''f''\<rparr>
                 else if file_type file = ''ghost'' then enc\<lparr>types := types enc @ ''g''\<rparr>
                 else enc)
      in AList.update dir enc hash)"

fun package_files_to_hash_loop :: "PackageFile list \<Rightarrow> files_hash \<Rightarrow> files_hash" where
  "package_files_to_hash_loop [] hash = hash"
| "package_files_to_hash_loop (file # iter) hash =
     package_files_to_hash_loop iter (package_files_to_hash_body file hash)"

definition package_files_to_hash :: "PackageFile list \<Rightarrow> files_hash" where
  "package_files_to_hash file_list = package_files_to_hash_loop file_list []"

subsection \<open>Reading a group back\<close>

text \<open>
  The reader's side of the codec, as the spec words it: the file kinds with their
  type strings and type codes, the split of \<open>filenames\<close> on \<open>/\<close>, and the
  position-wise zip with the characters of \<open>filetypes\<close>.
\<close>

datatype file_kind = Directory | File | Ghost

definition kind_of_type :: "string \<Rightarrow> file_kind option" where
  "kind_of_type t =
     (if t = ''dir'' then Some Directory
      else if t = ''file'' then Some File
      else if t = ''ghost'' then Some Ghost
      else None)"

definition kind_of_code :: "char \<Rightarrow> file_kind option" where
  "kind_of_code c =
     (if c = CHR ''d'' then Some Directory
      else if c = CHR ''f'' then Some File
      else if c = CHR ''g'' then Some Ghost
      else None)"

fun split_slash :: "string \<Rightarrow> string list" where
  "split_slash [] = [[]]"
| "split_slash (c # cs) =
     (if c = CHR ''/'' then [] # split_slash cs
      else (case split_slash cs of
              [] \<Rightarrow> [[c]]
            | w # ws \<Rightarrow> (c # w) # ws))"

text \<open>The pairs read back from one group, and the pairs of the files of one directory.\<close>

definition decode_group :: "EncodedPackageFile \<Rightarrow> (string \<times> file_kind option) list" where
  "decode_group enc = zip (split_slash (files enc)) (map kind_of_code (types enc))"

definition assigned_pairs :: "string \<Rightarrow> PackageFile list \<Rightarrow> (string \<times> file_kind option) list" where
  "assigned_pairs dir file_list =
     map (\<lambda>f. (g_path_get_basename (file_name f), kind_of_type (file_type f)))
       (filter (\<lambda>f. g_path_get_dirname (file_name f) = dir) file_list)"

text \<open>A path of separators only, as the root directory is.\<close>

definition only_separators :: "string \<Rightarrow> bool" where
  "only_separators path = (path \<noteq> [] \<and> list_all G_IS_DIR_SEPARATOR path)"

text \<open>
  What the buffers of a group hold, said in one piece: the names joined by \<open>/\<close>,
  and the type codes of the files, a file of another type giving none.
\<close>

fun join_slash :: "string list \<Rightarrow> string" where
  "join_slash [] = []"
| "join_slash [n] = n"
| "join_slash (n # m # ns) = n @ ''/'' @ join_slash (m # ns)"

definition type_code :: "string \<Rightarrow> string" where
  "type_code t =
     (if t = ''dir'' then ''d'' else if t = ''file'' then ''f''
      else if t = ''ghost'' then ''g'' else [])"

definition group_of :: "PackageFile list \<Rightarrow> EncodedPackageFile option" where
  "group_of fs =
     (if fs = [] then None
      else Some \<lparr>files = join_slash (map (\<lambda>f. g_path_get_basename (file_name f)) fs),
                  types = concat (map (\<lambda>f. type_code (file_type f)) fs)\<rparr>)"

section \<open>The storage engine\<close>

text \<open>
  Modelled from the spec: SQLite and the file system are the external storage the
  functions of db.c drive; they are not part of the repository. The model covers the statements
  db.c issues (\<open>CREATE TABLE\<close>, \<open>CREATE INDEX\<close>, \<open>CREATE TRIGGER ... AFTER DELETE\<close>
  with a body of \<open>DELETE FROM t WHERE pkgKey = old.pkgKey\<close>, \<open>DELETE FROM t\<close>, the
  \<open>INSERT\<close>s, the \<open>SELECT\<close> on \<open>db_info\<close>, \<open>PRAGMA synchronous\<close>), the deletion of
  a package row, which fires the triggers, and the outcomes a statement has for
  reasons of the schema (a name that exists already, a table that does not). A
  statement is abstract syntax, not text.

  A cell holds the number or the text written to it: the column types are kept as
  declared, and no conversion between a number and its decimal text is modelled. The
  table \<open>db_info\<close> has rows of its own type, holding for each row what the two column
  accessors of \<open>dbinfo_status\<close> return: the integer of \<open>sqlite3_column_int\<close> and the
  text of \<open>sqlite3_column_text\<close>.
\<close>

datatype sqlite_rc = SQLITE_OK | SQLITE_ERROR | SQLITE_DONE

datatype sql_value = SQL_NULL | SQL_INTEGER int | SQL_TEXT string

datatype sql_type = TEXT | INTEGER | INTEGER_PRIMARY_KEY

record sql_row =
  rowid :: int
  cells :: "(string \<times> sql_value) list"

record sql_table =
  columns :: "(string \<times> sql_type) list"
  rows :: "sql_row list"

record db_info_row =
  dbversion :: int
  dbchecksum :: string

text \<open>
  A trigger \<open>AFTER DELETE ON trigger_on\<close> whose body is, for each table of
  \<open>trigger_deletes\<close> in turn, \<open>DELETE FROM table WHERE pkgKey = old.pkgKey\<close>.
\<close>

record sql_trigger =
  trigger_on :: string
  trigger_deletes :: "string list"

text \<open>
  The content of a database and, with it, what a connection to it sees. The tables,
  the indexes and the triggers are kept by name, in the order of their creation; the
  cells of a row are kept by column. \<open>step_errors\<close> is the part of the
  environment that decides whether an \<open>INSERT\<close> can be carried out (disk full, I/O
  error, lock): each \<open>sqlite3_step\<close> takes the head of the list, and \<open>True\<close> makes
  that step fail; with the list empty every step succeeds.
\<close>

record sqlite3 =
  db_info :: "db_info_row list option"
  tables :: "(string \<times> sql_table) list"
  indexes :: "(string \<times> string \<times> string) list"
  triggers :: "(string \<times> sql_trigger) list"
  last_insert_rowid :: int
  step_errors :: "bool list"

definition sqlite3_new :: sqlite3 where
  "sqlite3_new = \<lparr>db_info = None, tables = [], indexes = [],
     triggers = [], last_insert_rowid = 0, step_errors = []\<rparr>"

datatype sql_stmt =
    CREATE_TABLE string "(string \<times> sql_type) list"
  | CREATE_INDEX string string string
  | CREATE_TRIGGER string string "string list"
  | DELETE_FROM_db_info
  | INSERT_INTO_db_info int string
  | PRAGMA_synchronous int
  | DELETE_FROM_packages_WHERE_pkgKey int

definition table_exists :: "sqlite3 \<Rightarrow> string \<Rightarrow> bool" where
  "table_exists db name =
     (if name = ''db_info'' then db_info db \<noteq> None else map_of (tables db) name \<noteq> None)"

definition name_in_use :: "sqlite3 \<Rightarrow> string \<Rightarrow> bool" where
  "name_in_use db name = (table_exists db name \<or> map_of (indexes db) name \<noteq> None)"

definition table_has_column :: "sqlite3 \<Rightarrow> string \<Rightarrow> string \<Rightarrow> bool" where
  "table_has_column db table col =
     (if table = ''db_info''
      then db_info db \<noteq> None \<and> (col = ''dbversion'' \<or> col = ''checksum'')
      else (case map_of (tables db) table of
              None \<Rightarrow> False
            | Some t \<Rightarrow> col \<in> set (map fst (columns t))))"

text \<open>
  \<open>DELETE FROM table WHERE pkgKey = key\<close> on the rows of one table: the rows whose
  \<open>pkgKey\<close> cell is the number \<open>key\<close> go, the others stay in their order. A column
  declared \<open>INTEGER PRIMARY KEY\<close> has the row id as its cell, the first of its name.
\<close>

definition delete_where_pkgKey :: "int \<Rightarrow> string \<Rightarrow> sqlite3 \<Rightarrow> sqlite3" where
  "delete_where_pkgKey key table db =
     (case map_of (tables db) table of
        None \<Rightarrow> db
      | Some t \<Rightarrow>
          db\<lparr>tables := AList.update table
               (t\<lparr>rows := filter (\<lambda>r. map_of (cells r) ''pkgKey'' \<noteq> Some (SQL_INTEGER key)) (rows t)\<rparr>)
               (tables db)\<rparr>)"

definition triggers_on :: "sqlite3 \<Rightarrow> string \<Rightarrow> sql_trigger list" where
  "triggers_on db table = filter (\<lambda>t. trigger_on t = table) (map snd (triggers db))"

text \<open>
  \<open>sqlite3_exec\<close> of one statement. A statement that fails leaves the database as
  it was. The deletion of a package row runs, for each row it deletes, the body of
  every trigger declared on \<open>packages\<close>, with the \<open>pkgKey\<close> of the statement as
  \<open>old.pkgKey\<close>, which every row it deletes has; it fails as a whole when a table
  of such a body does not exist or has no column \<open>pkgKey\<close>. A trigger on \<open>db_info\<close> would
  refer to a column \<open>db_info\<close> does not have, so a statement that fires it fails.
  \<open>PRAGMA synchronous\<close> changes how the engine syncs, which is no part of the
  content.
\<close>

fun sqlite3_exec :: "sqlite3 \<Rightarrow> sql_stmt \<Rightarrow> sqlite_rc \<times> sqlite3" where
  "sqlite3_exec db (CREATE_TABLE name cols) =
     (if name_in_use db name then (SQLITE_ERROR, db)
      else if name = ''db_info'' then (SQLITE_OK, db\<lparr>db_info := Some []\<rparr>)
      else (SQLITE_OK, db\<lparr>tables := tables db @ [(name, \<lparr>columns = cols, rows = []\<rparr>)]\<rparr>))"
| "sqlite3_exec db (CREATE_INDEX name table col) =
     (if name_in_use db name then (SQLITE_ERROR, db)
      else if table_has_column db table col
      then (SQLITE_OK, db\<lparr>indexes := indexes db @ [(name, table, col)]\<rparr>)
      else (SQLITE_ERROR, db))"
| "sqlite3_exec db (CREATE_TRIGGER name table deletes) =
     (if map_of (triggers db) name \<noteq> None then (SQLITE_ERROR, db)
      else if table_exists db table
      then (SQLITE_OK, db\<lparr>triggers := triggers db @
              [(name, \<lparr>trigger_on = table, trigger_deletes = deletes\<rparr>)]\<rparr>)
      else (SQLITE_ERROR, db))"
| "sqlite3_exec db DELETE_FROM_db_info =
     (if db_info db = None then (SQLITE_ERROR, db)
      else if triggers_on db ''db_info'' = [] then (SQLITE_OK, db\<lparr>db_info := Some []\<rparr>)
      else (SQLITE_ERROR, db))"
| "sqlite3_exec db (INSERT_INTO_db_info version text) =
     (case db_info db of
        None \<Rightarrow> (SQLITE_ERROR, db)
      | Some stamps \<Rightarrow>
          (SQLITE_OK, db\<lparr>db_info := Some (stamps @ [\<lparr>dbversion = version, dbchecksum = text\<rparr>])\<rparr>))"
| "sqlite3_exec db (PRAGMA_synchronous n) = (SQLITE_OK, db)"
| "sqlite3_exec db (DELETE_FROM_packages_WHERE_pkgKey key) =
     (case map_of (tables db) ''packages'' of
        None \<Rightarrow> (SQLITE_ERROR, db)
      | Some t \<Rightarrow>
          (let targets = concat (map trigger_deletes (triggers_on db ''packages''));
               deleted = filter (\<lambda>r. map_of (cells r) ''pkgKey'' = Some (SQL_INTEGER key)) (rows t)
           in if list_all (\<lambda>n. n \<noteq> ''db_info'' \<and> table_has_column db n ''pkgKey'') targets
              then (SQLITE_OK,
                    fold (\<lambda>old. fold (delete_where_pkgKey key) targets) deleted
                      (delete_where_pkgKey key ''packages'' db))
              else (SQLITE_ERROR, db)))"

subsection \<open>Prepared INSERT statements\<close>

text \<open>
  \<open>INSERT INTO stmt_table (stmt_columns) VALUES (?, ..., ?)\<close> with the values bound
  to its parameters, parameter 1 first; a parameter not bound is \<open>NULL\<close>.
\<close>

record sqlite3_stmt =
  stmt_table :: string
  stmt_columns :: "string list"
  stmt_bound :: "sql_value list"

definition sqlite3_prepare :: "sqlite3 \<Rightarrow> string \<Rightarrow> string list \<Rightarrow> sqlite3_stmt option" where
  "sqlite3_prepare db table cols =
     (if table \<noteq> ''db_info'' \<and> list_all (table_has_column db table) cols
      then Some \<lparr>stmt_table = table, stmt_columns = cols,
                  stmt_bound = replicate (length cols) SQL_NULL\<rparr>
      else None)"

definition sqlite3_bind :: "sqlite3_stmt \<Rightarrow> nat \<Rightarrow> sql_value \<Rightarrow> sqlite3_stmt" where
  "sqlite3_bind stmt i v =
     (if 1 \<le> i \<and> i \<le> length (stmt_bound stmt)
      then stmt\<lparr>stmt_bound := (stmt_bound stmt)[i - 1 := v]\<rparr>
      else stmt)"

definition sqlite3_bind_text :: "sqlite3_stmt \<Rightarrow> nat \<Rightarrow> string \<Rightarrow> sqlite3_stmt" where
  "sqlite3_bind_text stmt i s = sqlite3_bind stmt i (SQL_TEXT s)"

text \<open>\<open>sqlite3_bind_int\<close> takes a C \<open>int\<close>: 32 bits, signed.\<close>

definition sqlite3_bind_int :: "sqlite3_stmt \<Rightarrow> nat \<Rightarrow> 32 word \<Rightarrow> sqlite3_stmt" where
  "sqlite3_bind_int stmt i n = sqlite3_bind stmt i (SQL_INTEGER (sint n))"

text \<open>
  The row id of a new row is one more than the largest in the table, 1 in an empty
  table; a column declared \<open>INTEGER PRIMARY KEY\<close> is that row id.
\<close>

definition next_rowid :: "sql_table \<Rightarrow> int" where
  "next_rowid t = (if rows t = [] then 1 else Max (set (map rowid (rows t))) + 1)"

definition new_row :: "sql_table \<Rightarrow> sqlite3_stmt \<Rightarrow> sql_row" where
  "new_row t stmt =
     \<lparr>rowid = next_rowid t,
      cells =
        map (\<lambda>c. (c, SQL_INTEGER (next_rowid t)))
          (map fst (filter (\<lambda>c. snd c = INTEGER_PRIMARY_KEY) (columns t)))
        @ zip (stmt_columns stmt) (stmt_bound stmt)\<rparr>"

text \<open>
  \<open>sqlite3_step\<close> of a prepared \<open>INSERT\<close>, followed by its \<open>sqlite3_reset\<close>:
  \<open>SQLITE_DONE\<close> and the row added at the end of the table, or an error and the table
  as it was.
\<close>

definition step_will_fail :: "sqlite3 \<Rightarrow> bool" where
  "step_will_fail db = (case step_errors db of [] \<Rightarrow> False | e # _ \<Rightarrow> e)"

definition sqlite3_step :: "sqlite3 \<Rightarrow> sqlite3_stmt \<Rightarrow> sqlite_rc \<times> sqlite3" where
  "sqlite3_step db stmt =
     (let fails = step_will_fail db;
          db = db\<lparr>step_errors := tl (step_errors db)\<rparr>
      in if fails then (SQLITE_ERROR, db)
         else (case map_of (tables db) (stmt_table stmt) of
                 None \<Rightarrow> (SQLITE_ERROR, db)
               | Some t \<Rightarrow>
                   (SQLITE_DONE,
                    db\<lparr>tables := AList.update (stmt_table stmt)
                          (t\<lparr>rows := rows t @ [new_row t stmt]\<rparr>) (tables db),
                        last_insert_rowid := next_rowid t\<rparr>)))"

subsection \<open>Files\<close>

text \<open>
  The file system is the list of its paths with what each holds: a database, or
  something \<open>sqlite3_open\<close> cannot open; \<open>Unreadable\<close> can be unlinked, \<open>Blocked\<close>
  cannot. Opening a path that holds nothing creates an empty database there. The file
  of a connection holds what the connection has written.
\<close>

datatype fnode = DbFile sqlite3 | Unreadable | Blocked

type_synonym filesystem = "(string \<times> fnode) list"

definition g_file_test_exists :: "filesystem \<Rightarrow> string \<Rightarrow> bool" where
  "g_file_test_exists fs path = (map_of fs path \<noteq> None)"

text \<open>\<open>None\<close> for the connection: the return code is not \<open>SQLITE_OK\<close>.\<close>

definition sqlite3_open :: "filesystem \<Rightarrow> string \<Rightarrow> sqlite3 option \<times> filesystem" where
  "sqlite3_open fs path =
     (case map_of fs path of
        None \<Rightarrow> (Some sqlite3_new, AList.update path (DbFile sqlite3_new) fs)
      | Some (DbFile db) \<Rightarrow> (Some db, fs)
      | Some Unreadable \<Rightarrow> (None, fs)
      | Some Blocked \<Rightarrow> (None, fs))"

definition unlink :: "filesystem \<Rightarrow> string \<Rightarrow> filesystem" where
  "unlink fs path = (case map_of fs path of Some Blocked \<Rightarrow> fs | _ \<Rightarrow> AList.delete path fs)"

section \<open>The cache store of db.c\<close>

text \<open>
  A \<open>GError\<close> of the domain \<open>YUM_DB_ERROR\<close> with the fixed part of its message; the
  \<open>GError **err\<close> of a function, empty at its call, is the error it returns.
\<close>

datatype GError = YUM_DB_ERROR string

datatype DBStatus =
    DB_STATUS_OK
  | DB_STATUS_VERSION_MISMATCH
  | DB_STATUS_CHECKSUM_MISMATCH
  | DB_STATUS_ERROR

text \<open>
  \<open>YUM_SQLITE_CACHE_DBVERSION\<close> is a macro of db.h, which is not among the sources at
  hand: it is the first parameter, \<open>cache_dbversion\<close>, of the functions that use it.

  \<open>sqlite3_prepare_select_db_info\<close> is the \<open>SELECT dbversion, checksum FROM db_info\<close>
  of \<open>dbinfo_status\<close>: its rows, or \<open>None\<close> when it cannot be prepared.
\<close>

definition sqlite3_prepare_select_db_info :: "sqlite3 \<Rightarrow> db_info_row list option" where
  "sqlite3_prepare_select_db_info db = db_info db"

text \<open>
  The \<open>while\<close> loop of \<open>dbinfo_status\<close> ends with \<open>break\<close>: it reads the first row,
  and leaves \<open>DB_STATUS_ERROR\<close> when there is none. Its \<open>debug\<close> messages, of level
  \<open>DEBUG_LEVEL_INFO\<close>, are not modelled.
\<close>

definition dbinfo_status :: "int \<Rightarrow> sqlite3 \<Rightarrow> string \<Rightarrow> DBStatus" where
  "dbinfo_status cache_dbversion db checksum =
     (case sqlite3_prepare_select_db_info db of
        None \<Rightarrow> DB_STATUS_ERROR
      | Some [] \<Rightarrow> DB_STATUS_ERROR
      | Some (row # _) \<Rightarrow>
          if dbversion row \<noteq> cache_dbversion then DB_STATUS_VERSION_MISMATCH
          else if checksum \<noteq> dbchecksum row then DB_STATUS_CHECKSUM_MISMATCH
          else DB_STATUS_OK)"

definition yum_db_create_dbinfo_table :: "sqlite3 \<Rightarrow> sqlite3 \<times> GError option" where
  "yum_db_create_dbinfo_table db =
     (case sqlite3_exec db (CREATE_TABLE ''db_info'' [(''dbversion'', TEXT), (''checksum'', TEXT)]) of
        (rc, db) \<Rightarrow>
          if rc \<noteq> SQLITE_OK then (db, Some (YUM_DB_ERROR ''Can not create db_info table''))
          else (db, None))"

type_synonym CreateTablesFn = "sqlite3 \<Rightarrow> sqlite3 \<times> GError option"

text \<open>
  \<open>yum_db_open\<close> from \<open>if (!db)\<close> to its end: \<open>db\<close> is the connection still open, if
  any. The result is the file system, the connection returned (\<open>None\<close> for \<open>NULL\<close>)
  and the error set.
\<close>

definition yum_db_open_create ::
  "filesystem \<Rightarrow> string \<Rightarrow> sqlite3 option \<Rightarrow> CreateTablesFn
     \<Rightarrow> filesystem \<times> sqlite3 option \<times> GError option" where
  "yum_db_open_create fs path db create_tables =
     (case (case db of None \<Rightarrow> sqlite3_open fs path | Some d \<Rightarrow> (Some d, fs)) of
        (None, fs) \<Rightarrow> (fs, None, Some (YUM_DB_ERROR ''Can not open SQL database''))
      | (Some db, fs) \<Rightarrow>
          (case yum_db_create_dbinfo_table db of
             (db, Some e) \<Rightarrow> (AList.update path (DbFile db) fs, None, Some e)
           | (db, None) \<Rightarrow>
               (case create_tables db of
                  (db, Some e) \<Rightarrow> (AList.update path (DbFile db) fs, None, Some e)
                | (db, None) \<Rightarrow>
                    (case sqlite3_exec db (PRAGMA_synchronous 0) of
                       (rc, db) \<Rightarrow> (AList.update path (DbFile db) fs, Some db, None)))))"

definition yum_db_open ::
  "int \<Rightarrow> filesystem \<Rightarrow> string \<Rightarrow> string \<Rightarrow> CreateTablesFn
     \<Rightarrow> filesystem \<times> sqlite3 option \<times> GError option" where
  "yum_db_open cache_dbversion fs path checksum create_tables =
     (let db_existed = g_file_test_exists fs path
      in case sqlite3_open fs path of
           (Some db, fs) \<Rightarrow>
             if db_existed then
               (case dbinfo_status cache_dbversion db checksum of
                  DB_STATUS_OK \<Rightarrow> (fs, None, None)
                | DB_STATUS_CHECKSUM_MISMATCH \<Rightarrow>
                    (case sqlite3_exec db (PRAGMA_synchronous 0) of
                       (rc, db) \<Rightarrow>
                         (case sqlite3_exec db DELETE_FROM_db_info of
                            (rc, db) \<Rightarrow> (AList.update path (DbFile db) fs, Some db, None)))
                | DB_STATUS_VERSION_MISMATCH \<Rightarrow> yum_db_open_create fs path None create_tables
                | DB_STATUS_ERROR \<Rightarrow> yum_db_open_create fs path None create_tables)
             else yum_db_open_create fs path (Some db) create_tables
         | (None, fs) \<Rightarrow> yum_db_open_create (unlink fs path) path None create_tables)"

text \<open>
  The statement of \<open>yum_db_dbinfo_update\<close> is text built by \<open>g_strdup_printf\<close>, with
  the checksum pasted between two quotes. \<open>sql_text_safe\<close> says that a checksum has no
  quote character, as a digest has none: the text is then the \<open>INSERT\<close> of the compiled
  version and the checksum. A quote character in the checksum ends the string before
  its end, and what follows it is read as SQL: the text is then a syntax error, an
  \<open>INSERT\<close> of another value or other statements. The model does not parse SQL text and
  does not say which: \<open>g_strdup_printf_insert_db_info\<close> is \<open>None\<close> for such a checksum,
  and so is \<open>yum_db_dbinfo_update\<close>, whose result is otherwise the database and the
  error set.
\<close>

definition sql_text_safe :: "string \<Rightarrow> bool" where
  "sql_text_safe s = (CHR 0x27 \<notin> set s)"

definition g_strdup_printf_insert_db_info :: "int \<Rightarrow> string \<Rightarrow> sql_stmt option" where
  "g_strdup_printf_insert_db_info version checksum =
     (if sql_text_safe checksum then Some (INSERT_INTO_db_info version checksum) else None)"

definition yum_db_dbinfo_update ::
  "int \<Rightarrow> sqlite3 \<Rightarrow> string \<Rightarrow> (sqlite3 \<times> GError option) option" where
  "yum_db_dbinfo_update cache_dbversion db checksum =
     (case g_strdup_printf_insert_db_info cache_dbversion checksum of
        None \<Rightarrow> None
      | Some sql \<Rightarrow>
          (case sqlite3_exec db sql of
             (rc, db) \<Rightarrow>
               if rc \<noteq> SQLITE_OK
               then Some (db, Some (YUM_DB_ERROR ''Can not update dbinfo table''))
               else Some (db, None)))"

subsection \<open>The schemas\<close>

text \<open>
  Each \<open>yum_db_create_..._tables\<close> executes its statements in turn and returns at the
  first that fails, with the error of that statement.
\<close>

fun exec_each :: "sqlite3 \<Rightarrow> (sql_stmt \<times> string) list \<Rightarrow> sqlite3 \<times> GError option" where
  "exec_each db [] = (db, None)"
| "exec_each db ((sql, message) # rest) =
     (case sqlite3_exec db sql of
        (rc, db) \<Rightarrow>
          if rc \<noteq> SQLITE_OK then (db, Some (YUM_DB_ERROR message))
          else exec_each db rest)"

definition yum_db_create_primary_tables :: CreateTablesFn where
  "yum_db_create_primary_tables db =
     exec_each db
       ([(CREATE_TABLE ''packages''
           [(''pkgKey'', INTEGER_PRIMARY_KEY),
          (''pkgId'', TEXT),
          (''name'', TEXT),
          (''arch'', TEXT),
          (''version'', TEXT),
          (''epoch'', TEXT),
          (''release'', TEXT),
          (''summary'', TEXT),
          (''description'', TEXT),
          (''url'', TEXT),
          (''time_file'', TEXT),
          (''time_build'', TEXT),
          (''rpm_license'', TEXT),
          (''rpm_vendor'', TEXT),
          (''rpm_group'', TEXT),
          (''rpm_buildhost'', TEXT),
          (''rpm_sourcerpm'', TEXT),
          (''rpm_header_start'', TEXT),
          (''rpm_header_end'', TEXT),
          (''rpm_packager'', TEXT),
          (''size_package'', TEXT),
          (''size_installed'', TEXT),
          (''size_archive'', TEXT),
          (''location_href'', TEXT),
          (''location_base'', TEXT),
          (''checksum_type'', TEXT),
          (''checksum_value'', TEXT)],
          ''Can not create packages table''),
         (CREATE_INDEX ''packagename'' ''packages'' ''name'',
          ''Can not create packagename index''),
         (CREATE_INDEX ''packageId'' ''packages'' ''pkgId'',
          ''Can not create packageId index''),
         (CREATE_TABLE ''files'' [(''name'', TEXT), (''type'', TEXT), (''pkgKey'', TEXT)],
          ''Can not create files table'')]
        @ map (\<lambda>dep.
                (CREATE_TABLE dep
                   [(''name'', TEXT), (''flags'', TEXT), (''epoch'', TEXT), (''version'', TEXT),
                    (''release'', TEXT), (''pkgKey'', TEXT)],
                 ''Can not create '' @ dep @ '' table''))
            [''requires'', ''provides'', ''conflicts'', ''obsoletes'']
        @ [(CREATE_INDEX ''providesname'' ''provides'' ''name'',
            ''Can not create providesname index''),
           (CREATE_TRIGGER ''removals'' ''packages''
              [''files'', ''requires'', ''provides'', ''conflicts'', ''obsoletes''],
            ''Can not create removals trigger'')])"

definition yum_db_create_filelist_tables :: CreateTablesFn where
  "yum_db_create_filelist_tables db =
     exec_each db
       [(CREATE_TABLE ''packages'' [(''pkgKey'', INTEGER_PRIMARY_KEY), (''pkgId'', TEXT)],
         ''Can not create packages table''),
        (CREATE_TABLE ''filelist''
           [(''pkgKey'', INTEGER), (''dirname'', TEXT), (''filenames'', TEXT), (''filetypes'', TEXT)],
         ''Can not create filelist table''),
        (CREATE_INDEX ''keyfile'' ''filelist'' ''pkgKey'', ''Can not create keyfile index''),
        (CREATE_INDEX ''pkgId'' ''packages'' ''pkgId'', ''Can not create pkgId index''),
        (CREATE_TRIGGER ''remove_filelist'' ''packages'' [''filelist''],
         ''Can not create remove_filelist trigger'')]"

definition yum_db_create_other_tables :: CreateTablesFn where
  "yum_db_create_other_tables db =
     exec_each db
       [(CREATE_TABLE ''packages'' [(''pkgKey'', INTEGER_PRIMARY_KEY), (''pkgId'', TEXT)],
         ''Can not create packages table''),
        (CREATE_TABLE ''changelog''
           [(''pkgKey'', INTEGER), (''author'', TEXT), (''date'', TEXT), (''changelog'', TEXT)],
         ''Can not create changelog table''),
        (CREATE_INDEX ''keychange'' ''changelog'' ''pkgKey'', ''Can not create keychange index''),
        (CREATE_INDEX ''pkgId'' ''packages'' ''pkgId'', ''Can not create pkgId index''),
        (CREATE_TRIGGER ''remove_changelogs'' ''packages'' [''changelog''],
         ''Can not create remove_changelogs trigger'')]"

subsection \<open>The row writers\<close>

text \<open>
  The structs of package.h, as far as db.c reads them, with a prefix on the field
  names: \<open>dep_\<close> for \<open>Dependency\<close>, \<open>entry_\<close> for \<open>ChangelogEntry\<close>, \<open>p_\<close> for
  \<open>Package\<close>. A \<open>char *\<close> field is a string; \<open>pkgKey\<close> is a \<open>gint64\<close>. A writer
  returns the database and the messages it gives to \<open>debug\<close> at \<open>DEBUG_LEVEL_ERROR\<close>,
  each with the fixed part of its text; it has no \<open>GError\<close>. The values a call binds
  stay in the statement until the next call binds every parameter again, so a writer
  does not return the statement.
\<close>

record Dependency =
  dep_name :: string
  dep_flags :: string
  dep_epoch :: string
  dep_version :: string
  dep_release :: string



type_synonym debug_log = "string list"

definition yum_db_package_prepare :: "sqlite3 \<Rightarrow> sqlite3_stmt option \<times> GError option" where
  "yum_db_package_prepare db =
     (case sqlite3_prepare db ''packages''
             [''pkgId'', ''name'', ''arch'', ''version'', ''epoch'', ''release'', ''summary'', ''description'', ''url'', ''time_file'', ''time_build'', ''rpm_license'', ''rpm_vendor'', ''rpm_group'', ''rpm_buildhost'', ''rpm_sourcerpm'', ''rpm_header_start'', ''rpm_header_end'', ''rpm_packager'', ''size_package'', ''size_installed'', ''size_archive'', ''location_href'', ''location_base'', ''checksum_type'', ''checksum_value''] of
        None \<Rightarrow> (None, Some (YUM_DB_ERROR ''Can not prepare packages insertion''))
      | Some handle \<Rightarrow> (Some handle, None))"


definition yum_db_dependency_prepare ::
  "sqlite3 \<Rightarrow> string \<Rightarrow> sqlite3_stmt option \<times> GError option" where
  "yum_db_dependency_prepare db table =
     (case sqlite3_prepare db table
             [''name'', ''flags'', ''epoch'', ''version'', ''release'', ''pkgKey''] of
        None \<Rightarrow> (None, Some (YUM_DB_ERROR ''Can not prepare dependency insertion''))
      | Some handle \<Rightarrow> (Some handle, None))"

definition yum_db_dependency_write ::
  "sqlite3 \<Rightarrow> sqlite3_stmt \<Rightarrow> 64 word \<Rightarrow> Dependency \<Rightarrow> sqlite3 \<times> debug_log" where
  "yum_db_dependency_write db handle pkgKey dep =
     (let handle = sqlite3_bind_text handle 1 (dep_name dep);
          handle = sqlite3_bind_text handle 2 (dep_flags dep);
          handle = sqlite3_bind_text handle 3 (dep_epoch dep);
          handle = sqlite3_bind_text handle 4 (dep_version dep);
          handle = sqlite3_bind_text handle 5 (dep_release dep);
          handle = sqlite3_bind_int handle 6 (ucast pkgKey);
          (rc, db) = sqlite3_step db handle
      in if rc \<noteq> SQLITE_DONE then (db, [''Error adding dependency to SQL''])
         else (db, []))"

definition yum_db_file_prepare :: "sqlite3 \<Rightarrow> sqlite3_stmt option \<times> GError option" where
  "yum_db_file_prepare db =
     (case sqlite3_prepare db ''files'' [''name'', ''type'', ''pkgKey''] of
        None \<Rightarrow> (None, Some (YUM_DB_ERROR ''Can not prepare file insertion''))
      | Some handle \<Rightarrow> (Some handle, None))"

definition yum_db_file_write ::
  "sqlite3 \<Rightarrow> sqlite3_stmt \<Rightarrow> 64 word \<Rightarrow> PackageFile \<Rightarrow> sqlite3 \<times> debug_log" where
  "yum_db_file_write db handle pkgKey file =
     (let handle = sqlite3_bind_text handle 1 (file_type file);
          handle = sqlite3_bind_text handle 2 (file_name file);
          handle = sqlite3_bind_int handle 3 (ucast pkgKey);
          (rc, db) = sqlite3_step db handle
      in if rc \<noteq> SQLITE_DONE then (db, [''Error adding package file to SQL''])
         else (db, []))"

definition yum_db_package_ids_prepare :: "sqlite3 \<Rightarrow> sqlite3_stmt option \<times> GError option" where
  "yum_db_package_ids_prepare db =
     (case sqlite3_prepare db ''packages'' [''pkgId''] of
        None \<Rightarrow> (None, Some (YUM_DB_ERROR ''Can not prepare package ids insertion''))
      | Some handle \<Rightarrow> (Some handle, None))"


definition yum_db_filelists_prepare :: "sqlite3 \<Rightarrow> sqlite3_stmt option \<times> GError option" where
  "yum_db_filelists_prepare db =
     (case sqlite3_prepare db ''filelist'' [''pkgKey'', ''dirname'', ''filenames'', ''filetypes''] of
        None \<Rightarrow> (None, Some (YUM_DB_ERROR ''Can not prepare filelist insertion''))
      | Some handle \<Rightarrow> (Some handle, None))"

record FileWriteInfo =
  info_db :: sqlite3
  info_handle :: sqlite3_stmt
  info_pkgKey :: "64 word"

definition write_file :: "string \<Rightarrow> EncodedPackageFile \<Rightarrow> FileWriteInfo \<Rightarrow> sqlite3 \<times> debug_log" where
  "write_file key file info =
     (let handle = sqlite3_bind_int (info_handle info) 1 (ucast (info_pkgKey info));
          handle = sqlite3_bind_text handle 2 key;
          handle = sqlite3_bind_text handle 3 (files file);
          handle = sqlite3_bind_text handle 4 (types file);
          (rc, db) = sqlite3_step (info_db info) handle
      in if rc \<noteq> SQLITE_DONE then (db, [''Error adding file to SQL''])
         else (db, []))"







subsection \<open>The three kinds of schema\<close>

text \<open>
  The kinds of cache file the spec names, each with the function that creates its
  tables and with the tables that hold the rows of a package. \<open>fresh_schema\<close> is the
  content of a file of a kind as \<open>yum_db_open\<close> creates it, and \<open>has_schema_of\<close> says
  that a database has the tables, indexes and triggers of another, whatever its rows.
\<close>

datatype schema_kind = Primary | FileLists | Other

fun create_tables_of :: "schema_kind \<Rightarrow> CreateTablesFn" where
  "create_tables_of Primary = yum_db_create_primary_tables"
| "create_tables_of FileLists = yum_db_create_filelist_tables"
| "create_tables_of Other = yum_db_create_other_tables"

fun dependent_tables :: "schema_kind \<Rightarrow> string list" where
  "dependent_tables Primary = [''files'', ''requires'', ''provides'', ''conflicts'', ''obsoletes'']"
| "dependent_tables FileLists = [''filelist'']"
| "dependent_tables Other = [''changelog'']"

definition fresh_schema :: "schema_kind \<Rightarrow> sqlite3" where
  "fresh_schema kind =
     fst (create_tables_of kind (fst (yum_db_create_dbinfo_table sqlite3_new)))"

definition has_schema_of :: "sqlite3 \<Rightarrow> sqlite3 \<Rightarrow> bool" where
  "has_schema_of db schema =
     (triggers db = triggers schema \<and> indexes db = indexes schema
      \<and> (db_info db = None) = (db_info schema = None)
      \<and> map (\<lambda>t. (fst t, columns (snd t))) (tables db)
          = map (\<lambda>t. (fst t, columns (snd t))) (tables schema))"



text \<open>The cell of a column in the newest row of a table.\<close>

definition newest_cell :: "sqlite3 \<Rightarrow> string \<Rightarrow> string \<Rightarrow> sql_value option" where
  "newest_cell db table col =
     (case map_of (tables db) table of
        None \<Rightarrow> None
      | Some t \<Rightarrow> (case rev (rows t) of [] \<Rightarrow> None | row # _ \<Rightarrow> map_of (cells row) col))"

text \<open>The database with other rows in its tables: those that \<open>stored\<close> gives for each name.\<close>

definition with_rows :: "(string \<Rightarrow> sql_row list) \<Rightarrow> sqlite3 \<Rightarrow> sqlite3" where
  "with_rows stored db =
     db\<lparr>tables := map (\<lambda>t. (fst t, (snd t)\<lparr>rows := stored (fst t)\<rparr>)) (tables db)\<rparr>"

text \<open>The rows of a table that are not of the package \<open>key\<close>.\<close>

definition rows_of_others :: "int \<Rightarrow> sql_table \<Rightarrow> sql_table" where
  "rows_of_others key t =
     t\<lparr>rows := filter (\<lambda>r. map_of (cells r) ''pkgKey'' \<noteq> Some (SQL_INTEGER key)) (rows t)\<rparr>"
section \<open>Properties of the file-list codec\<close>

subsection \<open>Path splitting and the separator\<close>

lemma g_path_get_basename_not_empty: "g_path_get_basename path \<noteq> []"
proof (cases "path = []")
  case True
  then show ?thesis by (simp add: g_path_get_basename_def)
next
  case False
  show ?thesis
  proof (cases "dropWhile G_IS_DIR_SEPARATOR (rev path)")
    case Nil
    with False show ?thesis by (simp add: g_path_get_basename_def)
  next
    case (Cons c cs)
    then have "\<not> G_IS_DIR_SEPARATOR c"
      by (metis hd_dropWhile list.distinct(1) list.sel(1))
    with False Cons show ?thesis by (simp add: g_path_get_basename_def)
  qed
qed

lemma g_path_get_basename_no_slash:
  assumes "\<not> only_separators path"
  shows "CHR ''/'' \<notin> set (g_path_get_basename path)"
proof (cases "path = []")
  case True
  then show ?thesis by (simp add: g_path_get_basename_def)
next
  case False
  with assms have "\<not> list_all G_IS_DIR_SEPARATOR (rev path)"
    by (simp add: only_separators_def list_all_iff)
  then have "dropWhile G_IS_DIR_SEPARATOR (rev path) \<noteq> []"
    by (simp add: list_all_iff dropWhile_eq_Nil_conv)
  moreover have "CHR ''/'' \<notin> set (takeWhile (\<lambda>c. \<not> G_IS_DIR_SEPARATOR c) xs)" for xs
    using set_takeWhileD [of "CHR ''/''" "\<lambda>c. \<not> G_IS_DIR_SEPARATOR c" xs]
    by (auto simp: G_IS_DIR_SEPARATOR_def)
  ultimately show ?thesis using False by (simp add: g_path_get_basename_def Let_def)
qed

lemma join_slash_snoc: "ns \<noteq> [] \<Longrightarrow> join_slash (ns @ [n]) = join_slash ns @ ''/'' @ n"
  by (induction ns rule: join_slash.induct) simp_all

lemma join_slash_not_empty: "ns \<noteq> [] \<Longrightarrow> [] \<notin> set ns \<Longrightarrow> join_slash ns \<noteq> []"
  by (induction ns rule: join_slash.induct) simp_all

lemma split_slash_not_empty: "split_slash s \<noteq> []"
  by (induction s) (simp_all split: list.split)

lemma split_slash_append: "split_slash (a @ CHR ''/'' # b) = split_slash a @ split_slash b"
proof (induction a)
  case Nil
  then show ?case by simp
next
  case (Cons c a)
  then show ?case using split_slash_not_empty [of a]
    by (cases "split_slash a") simp_all
qed

lemma split_slash_no_slash: "CHR ''/'' \<notin> set b \<Longrightarrow> split_slash b = [b]"
  by (induction b) auto

lemma split_join_slash:
  "ns \<noteq> [] \<Longrightarrow> \<forall>n \<in> set ns. CHR ''/'' \<notin> set n \<Longrightarrow> split_slash (join_slash ns) = ns"
proof (induction ns rule: join_slash.induct)
  case 1
  then show ?case by simp
next
  case (2 n)
  then show ?case by (simp add: split_slash_no_slash)
next
  case (3 n m ns)
  then show ?case by (simp add: split_slash_append split_slash_no_slash)
qed

subsection \<open>The groups of a file list\<close>

text \<open>
  Whatever the file list, the table has one entry for each directory that has a file,
  and the buffers of the entry hold the base names of the files of the directory,
  joined by \<open>/\<close> in the order of the list, and their type codes.
\<close>

lemma group_of_snoc:
  "group_of (fs @ [f]) =
     Some \<lparr>files = (case group_of fs of None \<Rightarrow> [] | Some e \<Rightarrow> files e @ ''/'')
                     @ g_path_get_basename (file_name f),
           types = (case group_of fs of None \<Rightarrow> [] | Some e \<Rightarrow> types e)
                     @ type_code (file_type f)\<rparr>"
  by (cases "fs = []") (simp_all add: group_of_def join_slash_snoc)

lemma group_of_files_not_empty:
  assumes "group_of fs = Some e"
  shows "files e \<noteq> []"
proof -
  from assms have "fs \<noteq> []"
    and e: "files e = join_slash (map (\<lambda>f. g_path_get_basename (file_name f)) fs)"
    by (auto simp: group_of_def split: if_splits)
  moreover have "[] \<notin> set (map (\<lambda>f. g_path_get_basename (file_name f)) fs)"
    using g_path_get_basename_not_empty by (metis (mono_tags, lifting) imageE list.set_map)
  ultimately show ?thesis
    using join_slash_not_empty [of "map (\<lambda>f. g_path_get_basename (file_name f)) fs"] by simp
qed

lemma package_files_to_hash_body_groups:
  assumes "\<And>d. map_of hash d = group_of (filter (\<lambda>f. g_path_get_dirname (file_name f) = d) seen)"
  shows "map_of (package_files_to_hash_body file hash) d =
           group_of (filter (\<lambda>f. g_path_get_dirname (file_name f) = d) (seen @ [file]))"
proof (cases "g_path_get_dirname (file_name file) = d")
  case False
  then show ?thesis
    using assms by (simp add: package_files_to_hash_body_def Let_def update_conv')
next
  case True
  show ?thesis
  proof (cases "map_of hash d")
    case None
    with True assms [of d] show ?thesis
      by (simp add: package_files_to_hash_body_def Let_def update_conv' group_of_snoc
          encoded_package_file_new_def type_code_def)
  next
    case (Some e)
    with assms [of d] have "files e \<noteq> []"
      by (simp add: group_of_files_not_empty)
    with Some True assms [of d] show ?thesis
      by (simp add: package_files_to_hash_body_def Let_def update_conv' group_of_snoc
          type_code_def)
  qed
qed

lemma package_files_to_hash_loop_groups:
  "(\<And>d. map_of hash d = group_of (filter (\<lambda>f. g_path_get_dirname (file_name f) = d) seen)) \<Longrightarrow>
     map_of (package_files_to_hash_loop file_list hash) d =
       group_of (filter (\<lambda>f. g_path_get_dirname (file_name f) = d) (seen @ file_list))"
proof (induction file_list arbitrary: hash seen)
  case Nil
  then show ?case by simp
next
  case (Cons entry file_list)
  have "map_of (package_files_to_hash_loop file_list (package_files_to_hash_body entry hash)) d =
          group_of (filter (\<lambda>f. g_path_get_dirname (file_name f) = d) ((seen @ [entry]) @ file_list))"
    by (rule Cons.IH) (rule package_files_to_hash_body_groups, rule Cons.prems)
  then show ?case by simp
qed

lemma package_files_to_hash_groups:
  "map_of (package_files_to_hash file_list) d =
     group_of (filter (\<lambda>f. g_path_get_dirname (file_name f) = d) file_list)"
  using package_files_to_hash_loop_groups [of "[]" "[]" file_list d]
  by (simp add: package_files_to_hash_def group_of_def)

lemma package_files_to_hash_body_distinct:
  "distinct (map fst hash) \<Longrightarrow> distinct (map fst (package_files_to_hash_body file hash))"
  by (simp add: package_files_to_hash_body_def Let_def distinct_update)

lemma package_files_to_hash_loop_distinct:
  "distinct (map fst hash) \<Longrightarrow> distinct (map fst (package_files_to_hash_loop file_list hash))"
  by (induction file_list arbitrary: hash) (simp_all add: package_files_to_hash_body_distinct)

lemma package_files_to_hash_distinct: "distinct (map fst (package_files_to_hash file_list))"
  by (simp add: package_files_to_hash_def package_files_to_hash_loop_distinct)

lemma package_files_to_hash_group_iff:
  "(dir, enc) \<in> set (package_files_to_hash file_list) \<longleftrightarrow>
     group_of (filter (\<lambda>f. g_path_get_dirname (file_name f) = dir) file_list) = Some enc"
  using package_files_to_hash_distinct [of file_list] package_files_to_hash_groups [of file_list dir]
  by (metis map_of_eq_Some_iff)

text \<open>
  The example of the spec, and the package without files: two groups, the directory
  \<open>/a\<close> itself being a file of the group of \<open>/\<close>; and no group.
\<close>

lemma package_files_to_hash_example:
  "package_files_to_hash
     [\<lparr>file_type = ''file'', file_name = ''/a/b.txt''\<rparr>,
      \<lparr>file_type = ''file'', file_name = ''/a/c.txt''\<rparr>,
      \<lparr>file_type = ''dir'', file_name = ''/a''\<rparr>]
   = [(''/a'', \<lparr>files = ''b.txt/c.txt'', types = ''ff''\<rparr>),
      (''/'', \<lparr>files = ''a'', types = ''d''\<rparr>)]"
  by code_simp

lemma package_files_to_hash_empty: "package_files_to_hash [] = []"
  by (simp add: package_files_to_hash_def)

subsection \<open>Reading the groups back\<close>

lemma kind_of_code_type_code:
  "kind_of_type t \<noteq> None \<Longrightarrow> map kind_of_code (type_code t) = [kind_of_type t]"
  by (auto simp: kind_of_type_def type_code_def kind_of_code_def split: if_splits)

lemma type_codes_length:
  "\<forall>f \<in> set fs. kind_of_type (file_type f) \<noteq> None \<Longrightarrow>
     length (concat (map (\<lambda>f. type_code (file_type f)) fs)) = length fs"
  by (induction fs) (auto simp: kind_of_type_def type_code_def split: if_splits)

lemma decode_group_of:
  assumes "fs \<noteq> []"
    and "\<forall>f \<in> set fs. kind_of_type (file_type f) \<noteq> None \<and> \<not> only_separators (file_name f)"
  shows "zip (split_slash (join_slash (map (\<lambda>f. g_path_get_basename (file_name f)) fs)))
             (map kind_of_code (concat (map (\<lambda>f. type_code (file_type f)) fs)))
         = map (\<lambda>f. (g_path_get_basename (file_name f), kind_of_type (file_type f))) fs"
proof -
  have "split_slash (join_slash (map (\<lambda>f. g_path_get_basename (file_name f)) fs))
          = map (\<lambda>f. g_path_get_basename (file_name f)) fs"
    using assms by (intro split_join_slash) (auto simp: g_path_get_basename_no_slash)
  moreover have "map kind_of_code (concat (map (\<lambda>f. type_code (file_type f)) fs))
          = map (\<lambda>f. kind_of_type (file_type f)) fs"
    using assms(2) by (induction fs) (simp_all add: kind_of_code_type_code)
  ultimately show ?thesis by (simp add: zip_map_map) (simp add: zip_same_conv_map)
qed

text \<open>
  Claim C4, amended. For every file list and every group \<open>(dir, enc)\<close> of
  \<open>package_files_to_hash\<close> whose own files, those of the directory \<open>dir\<close>, are of type
  \<open>dir\<close>, \<open>file\<close> or \<open>ghost\<close> and have a path that is not made of separators only,
  whatever the files of the other directories are: splitting the file names of the
  group on \<open>/\<close> and zipping them with the kinds of its type codes gives the pairs of
  base name and kind of the files of that directory, in the order of the list, hence
  the same multiset; the number of names is the number of type codes.
\<close>

theorem package_files_to_hash_round_trip:
  assumes "(dir, enc) \<in> set (package_files_to_hash file_list)"
    and "\<forall>f \<in> set file_list. g_path_get_dirname (file_name f) = dir \<longrightarrow>
           kind_of_type (file_type f) \<noteq> None \<and> \<not> only_separators (file_name f)"
  shows "decode_group enc = assigned_pairs dir file_list
         \<and> mset (decode_group enc) = mset (assigned_pairs dir file_list)
         \<and> length (split_slash (files enc)) = length (types enc)"
proof -
  let ?fs = "filter (\<lambda>f. g_path_get_dirname (file_name f) = dir) file_list"
  from assms(1) have g: "group_of ?fs = Some enc"
    by (simp add: package_files_to_hash_group_iff)
  then have ne: "?fs \<noteq> []"
    by (auto simp: group_of_def split: if_splits)
  from assms(2) have ok: "\<forall>f \<in> set ?fs.
      kind_of_type (file_type f) \<noteq> None \<and> \<not> only_separators (file_name f)"
    by simp
  have enc: "enc = \<lparr>files = join_slash (map (\<lambda>f. g_path_get_basename (file_name f)) ?fs),
                    types = concat (map (\<lambda>f. type_code (file_type f)) ?fs)\<rparr>"
    using g ne by (simp add: group_of_def)
  have d: "decode_group enc = assigned_pairs dir file_list"
    unfolding decode_group_def assigned_pairs_def
    by (subst (1 2) enc) (simp add: decode_group_of [OF ne ok])
  have "length (decode_group enc) = length ?fs"
    by (simp add: d assigned_pairs_def)
  moreover have "length (split_slash (files enc)) = length ?fs"
    using ne ok
    by (subst enc) (simp add: split_join_slash g_path_get_basename_no_slash)
  moreover have "length (types enc) = length ?fs"
    using ok by (subst enc) (simp add: type_codes_length)
  ultimately show ?thesis using d by simp
qed

text \<open>
  A package that owns the root directory and a file of a type that has no code: the
  group of \<open>/usr\<close> reads back all the same, since none of these files is in it.
\<close>

theorem package_files_to_hash_round_trip_witness:
  "(''/usr'', \<lparr>files = ''bin/lib'', types = ''dg''\<rparr>)
     \<in> set (package_files_to_hash
         [\<lparr>file_type = ''dir'', file_name = ''/''\<rparr>,
          \<lparr>file_type = ''dir'', file_name = ''/usr/bin''\<rparr>,
          \<lparr>file_type = ''symlink'', file_name = ''/etc/mtab''\<rparr>,
          \<lparr>file_type = ''ghost'', file_name = ''/usr/lib''\<rparr>])
   \<and> decode_group \<lparr>files = ''bin/lib'', types = ''dg''\<rparr>
     = assigned_pairs ''/usr''
         [\<lparr>file_type = ''dir'', file_name = ''/''\<rparr>,
          \<lparr>file_type = ''dir'', file_name = ''/usr/bin''\<rparr>,
          \<lparr>file_type = ''symlink'', file_name = ''/etc/mtab''\<rparr>,
          \<lparr>file_type = ''ghost'', file_name = ''/usr/lib''\<rparr>]
   \<and> assigned_pairs ''/usr''
         [\<lparr>file_type = ''dir'', file_name = ''/''\<rparr>,
          \<lparr>file_type = ''dir'', file_name = ''/usr/bin''\<rparr>,
          \<lparr>file_type = ''symlink'', file_name = ''/etc/mtab''\<rparr>,
          \<lparr>file_type = ''ghost'', file_name = ''/usr/lib''\<rparr>]
       = [(''bin'', Some Directory), (''lib'', Some Ghost)]"
proof -
  let ?l = "[\<lparr>file_type = ''dir'', file_name = ''/''\<rparr>,
          \<lparr>file_type = ''dir'', file_name = ''/usr/bin''\<rparr>,
          \<lparr>file_type = ''symlink'', file_name = ''/etc/mtab''\<rparr>,
          \<lparr>file_type = ''ghost'', file_name = ''/usr/lib''\<rparr>]"
  have h1: "(''/usr'', \<lparr>files = ''bin/lib'', types = ''dg''\<rparr>) \<in> set (package_files_to_hash ?l)"
    by code_simp
  have h2: "\<forall>f \<in> set ?l. g_path_get_dirname (file_name f) = ''/usr'' \<longrightarrow>
      kind_of_type (file_type f) \<noteq> None \<and> \<not> only_separators (file_name f)"
    by code_simp
  have "assigned_pairs ''/usr'' ?l = [(''bin'', Some Directory), (''lib'', Some Ghost)]"
    by code_simp
  with package_files_to_hash_round_trip [OF h1 h2] h1 show ?thesis by simp
qed

text \<open>
  Claim C4 as stated fails for the root directory: its base name is \<open>/\<close>, the
  separator itself, so the group of \<open>/\<close> reads back as an empty name.
\<close>

theorem package_files_to_hash_round_trip_counterexample:
  "(''/'', \<lparr>files = ''/'', types = ''d''\<rparr>)
      \<in> set (package_files_to_hash [\<lparr>file_type = ''dir'', file_name = ''/''\<rparr>])
   \<and> decode_group \<lparr>files = ''/'', types = ''d''\<rparr> = [('''', Some Directory)]
   \<and> assigned_pairs ''/'' [\<lparr>file_type = ''dir'', file_name = ''/''\<rparr>] = [(''/'', Some Directory)]
   \<and> mset (decode_group \<lparr>files = ''/'', types = ''d''\<rparr>)
        \<noteq> mset (assigned_pairs ''/'' [\<lparr>file_type = ''dir'', file_name = ''/''\<rparr>])"
proof -
  have 1: "(''/'', \<lparr>files = ''/'', types = ''d''\<rparr>)
      \<in> set (package_files_to_hash [\<lparr>file_type = ''dir'', file_name = ''/''\<rparr>])"
    by code_simp
  have 2: "decode_group \<lparr>files = ''/'', types = ''d''\<rparr> = [('''', Some Directory)]"
    by code_simp
  have 3: "assigned_pairs ''/'' [\<lparr>file_type = ''dir'', file_name = ''/''\<rparr>] = [(''/'', Some Directory)]"
    by code_simp
  show ?thesis unfolding 2 3 using 1 by simp
qed

text \<open>
  Claim C2 on the code. A file of a type other than \<open>dir\<close>, \<open>file\<close> and \<open>ghost\<close> is
  not rejected: its base name is appended and no type code is. The group of \<open>/a\<close>
  below has three names and two type codes, and the code \<open>d\<close> of the third file
  stands at the position of the second.
\<close>

theorem package_files_to_hash_unknown_type:
  "package_files_to_hash
     [\<lparr>file_type = ''file'', file_name = ''/a/x''\<rparr>,
      \<lparr>file_type = ''symlink'', file_name = ''/a/y''\<rparr>,
      \<lparr>file_type = ''dir'', file_name = ''/a/z''\<rparr>]
     = [(''/a'', \<lparr>files = ''x/y/z'', types = ''fd''\<rparr>)]
   \<and> split_slash ''x/y/z'' = [''x'', ''y'', ''z'']
   \<and> decode_group \<lparr>files = ''x/y/z'', types = ''fd''\<rparr>
       = [(''x'', Some File), (''y'', Some Directory)]"
  by code_simp

theorem package_files_to_hash_unknown_type_witness:
  "length (split_slash ''x/y/z'') = 3 \<and> length ''fd'' = 2
   \<and> map fst (package_files_to_hash
     [\<lparr>file_type = ''file'', file_name = ''/a/x''\<rparr>,
      \<lparr>file_type = ''symlink'', file_name = ''/a/y''\<rparr>,
      \<lparr>file_type = ''dir'', file_name = ''/a/z''\<rparr>]) = [''/a'']"
  using package_files_to_hash_unknown_type by simp
section \<open>Properties of the cache store\<close>

subsection \<open>The schemas as created\<close>

lemma map_of_columns:
  "map_of (map (\<lambda>t. (fst t, columns (snd t))) ts) name = map_option columns (map_of ts name)"
  by (induction ts) auto

lemma has_schema_of_columns:
  assumes "has_schema_of db schema"
  shows "map_option columns (map_of (tables db) name) = map_option columns (map_of (tables schema) name)"
  using assms map_of_columns [of "tables db" name] map_of_columns [of "tables schema" name]
  by (simp add: has_schema_of_def)

lemma has_schema_of_table:
  assumes "has_schema_of db schema"
    and "map_of (tables schema) name = Some \<lparr>columns = cols, rows = rs\<rparr>"
  shows "\<exists>t. map_of (tables db) name = Some t \<and> columns t = cols"
  using has_schema_of_columns [OF assms(1), of name] assms(2) by auto

lemma primary_files_table:
  "map_of (tables (fresh_schema Primary)) ''files'' =
     Some \<lparr>columns = [(''name'', TEXT), (''type'', TEXT), (''pkgKey'', TEXT)], rows = []\<rparr>"
  by code_simp

lemma primary_dependency_table:
  "table \<in> {''requires'', ''provides'', ''conflicts'', ''obsoletes''} \<Longrightarrow>
   map_of (tables (fresh_schema Primary)) table =
     Some \<lparr>columns = [(''name'', TEXT), (''flags'', TEXT), (''epoch'', TEXT), (''version'', TEXT),
                      (''release'', TEXT), (''pkgKey'', TEXT)], rows = []\<rparr>"
  by (elim insertE emptyE; hypsubst; code_simp)

lemma filelists_filelist_table:
  "map_of (tables (fresh_schema FileLists)) ''filelist'' =
     Some \<lparr>columns = [(''pkgKey'', INTEGER), (''dirname'', TEXT), (''filenames'', TEXT),
                      (''filetypes'', TEXT)], rows = []\<rparr>"
  by code_simp

lemma other_changelog_table:
  "map_of (tables (fresh_schema Other)) ''changelog'' =
     Some \<lparr>columns = [(''pkgKey'', INTEGER), (''author'', TEXT), (''date'', TEXT),
                      (''changelog'', TEXT)], rows = []\<rparr>"
  by code_simp

lemma create_tables_of_fresh:
  "create_tables_of kind (fst (yum_db_create_dbinfo_table sqlite3_new)) = (fresh_schema kind, None)"
  by (cases kind; hypsubst; code_simp)

lemma fresh_schema_db_info: "db_info (fresh_schema kind) = Some []"
  by (cases kind; hypsubst; code_simp)

lemma has_schema_of_no_db_info_trigger:
  assumes "has_schema_of db (fresh_schema kind)"
  shows "triggers_on db ''db_info'' = []"
proof -
  have "triggers_on (fresh_schema kind) ''db_info'' = []"
    by (cases kind; hypsubst; code_simp)
  with assms show ?thesis
    by (simp add: has_schema_of_def triggers_on_def)
qed

subsection \<open>Opening a cache file\<close>

lemmas open_defs = yum_db_open_def yum_db_open_create_def sqlite3_open_def
  g_file_test_exists_def dbinfo_status_def sqlite3_prepare_select_db_info_def
  yum_db_create_dbinfo_table_def name_in_use_def table_exists_def

text \<open>
  A path that holds nothing: the file is created with \<open>db_info\<close> and the tables of the
  kind, and its connection is returned.
\<close>

lemma yum_db_open_absent:
  assumes "map_of fs path = None"
  shows "yum_db_open cache_dbversion fs path checksum (create_tables_of kind) =
           (AList.update path (DbFile (fresh_schema kind)) fs, Some (fresh_schema kind), None)"
proof -
  obtain db0 where db0: "yum_db_create_dbinfo_table sqlite3_new = (db0, None)"
    by (cases "yum_db_create_dbinfo_table sqlite3_new")
       (auto simp: yum_db_create_dbinfo_table_def sqlite3_new_def name_in_use_def table_exists_def)
  with create_tables_of_fresh [of kind] have "create_tables_of kind db0 = (fresh_schema kind, None)"
    by simp
  with assms db0 show ?thesis
    by (simp add: yum_db_open_def yum_db_open_create_def sqlite3_open_def g_file_test_exists_def)
qed

text \<open>
  Claim C1 on the code. For every existing cache file whose first stamp has a version
  other than the compiled one, \<open>yum_db_open\<close> closes the connection and opens the same
  file again: the branch of \<open>DB_STATUS_VERSION_MISMATCH\<close> does not unlink it, as the
  branch of a failed \<open>sqlite3_open\<close> does. \<open>db_info\<close> is still there, so creating it
  fails: no connection is returned, the error is set, the tables of the caller are not
  created, and the file is as it was.
\<close>

theorem yum_db_open_version_mismatch:
  assumes "map_of fs path = Some (DbFile db)"
    and "db_info db = Some (row # stamps)"
    and "dbversion row \<noteq> cache_dbversion"
  shows "yum_db_open cache_dbversion fs path checksum create_tables =
           (fs, None, Some (YUM_DB_ERROR ''Can not create db_info table''))"
proof -
  have "AList.update path (DbFile db) fs = fs"
    using assms(1) by (rule update_triv)
  with assms show ?thesis
    by (simp add: open_defs)
qed

theorem yum_db_open_version_mismatch_witness:
  "yum_db_open 10
     [(''primary.sqlite'', DbFile (sqlite3_new\<lparr>db_info := Some [\<lparr>dbversion = 9, dbchecksum = ''abc''\<rparr>]\<rparr>))]
     ''primary.sqlite'' ''abc'' yum_db_create_primary_tables =
   ([(''primary.sqlite'', DbFile (sqlite3_new\<lparr>db_info := Some [\<lparr>dbversion = 9, dbchecksum = ''abc''\<rparr>]\<rparr>))],
    None, Some (YUM_DB_ERROR ''Can not create db_info table''))"
  using yum_db_open_version_mismatch
    [of "[(''primary.sqlite'', DbFile (sqlite3_new\<lparr>db_info := Some [\<lparr>dbversion = 9, dbchecksum = ''abc''\<rparr>]\<rparr>))]"
        "''primary.sqlite''" "sqlite3_new\<lparr>db_info := Some [\<lparr>dbversion = 9, dbchecksum = ''abc''\<rparr>]\<rparr>"
        "\<lparr>dbversion = 9, dbchecksum = ''abc''\<rparr>" "[]" 10 "''abc''" yum_db_create_primary_tables]
  by simp

text \<open>
  Claim C6. When the version of the first stamp is the compiled one and its checksum is
  not the one expected, \<open>yum_db_open\<close> returns, with no error, a connection to the file
  in which \<open>db_info\<close> has no row and every table, index and trigger is as before;
  the result does not depend on \<open>create_tables\<close>, which is not run. The file has no
  trigger on \<open>db_info\<close>, as no file with a schema of db.c has
  (\<open>has_schema_of_no_db_info_trigger\<close>).
\<close>

theorem yum_db_open_checksum_mismatch:
  assumes "map_of fs path = Some (DbFile db)"
    and "db_info db = Some (row # stamps)"
    and "dbversion row = cache_dbversion"
    and "dbchecksum row \<noteq> checksum"
    and "triggers_on db ''db_info'' = []"
  shows "yum_db_open cache_dbversion fs path checksum create_tables =
           (AList.update path (DbFile (db\<lparr>db_info := Some []\<rparr>)) fs, Some (db\<lparr>db_info := Some []\<rparr>), None)
         \<and> tables (db\<lparr>db_info := Some []\<rparr>) = tables db
         \<and> indexes (db\<lparr>db_info := Some []\<rparr>) = indexes db
         \<and> triggers (db\<lparr>db_info := Some []\<rparr>) = triggers db"
  using assms by (auto simp: open_defs)

theorem yum_db_open_checksum_mismatch_witness:
  "yum_db_open 10
     [(''filelists.sqlite'', DbFile ((fresh_schema FileLists)\<lparr>db_info := Some [\<lparr>dbversion = 10, dbchecksum = ''old''\<rparr>]\<rparr>))]
     ''filelists.sqlite'' ''new'' yum_db_create_filelist_tables
   = ([(''filelists.sqlite'', DbFile (fresh_schema FileLists))], Some (fresh_schema FileLists), None)"
proof -
  let ?db = "(fresh_schema FileLists)\<lparr>db_info := Some [\<lparr>dbversion = 10, dbchecksum = ''old''\<rparr>]\<rparr>"
  have 1: "map_of [(''filelists.sqlite'', DbFile ?db)] ''filelists.sqlite'' = Some (DbFile ?db)"
    by simp
  have 2: "db_info ?db = Some [\<lparr>dbversion = 10, dbchecksum = ''old''\<rparr>]"
    by simp
  have 3: "dbversion \<lparr>dbversion = 10, dbchecksum = ''old''\<rparr> = 10"
    and 4: "dbchecksum \<lparr>dbversion = 10, dbchecksum = ''old''\<rparr> \<noteq> ''new''"
    by simp_all
  have 5: "triggers_on ?db ''db_info'' = []"
    by code_simp
  have 6: "?db\<lparr>db_info := Some []\<rparr> = fresh_schema FileLists"
    by code_simp
  from yum_db_open_checksum_mismatch
    [where fs = "[(''filelists.sqlite'', DbFile ?db)]" and path = "''filelists.sqlite''"
       and create_tables = yum_db_create_filelist_tables, OF 1 2 3 4 5]
  show ?thesis unfolding 6 by simp
qed

subsection \<open>Writing the stamp\<close>

text \<open>
  Claim C3, amended. For a checksum without a quote character, \<open>yum_db_dbinfo_update\<close>
  deletes nothing and sets no error: it inserts one row with the compiled version and the
  checksum after the rows \<open>db_info\<close> holds, so the table holds exactly one row
  afterwards when it held none before, as in a connection that \<open>yum_db_open\<close> returns
  (a fresh file, or the stamps deleted on a checksum mismatch).
\<close>

theorem yum_db_dbinfo_update_appends:
  assumes "sql_text_safe checksum"
    and "db_info db = Some stamps"
  shows "yum_db_dbinfo_update cache_dbversion db checksum =
           Some (db\<lparr>db_info := Some (stamps @ [\<lparr>dbversion = cache_dbversion, dbchecksum = checksum\<rparr>])\<rparr>,
                 None)"
  using assms by (simp add: yum_db_dbinfo_update_def g_strdup_printf_insert_db_info_def)

theorem yum_db_dbinfo_update_appends_witness:
  "map_option (db_info \<circ> fst) (yum_db_dbinfo_update 10 (sqlite3_new\<lparr>db_info := Some []\<rparr>) ''0123abcd'')
     = Some (Some [\<lparr>dbversion = 10, dbchecksum = ''0123abcd''\<rparr>])"
proof -
  have "sql_text_safe ''0123abcd''"
    by (simp add: sql_text_safe_def)
  moreover have "db_info (sqlite3_new\<lparr>db_info := Some []\<rparr>) = Some []"
    by simp
  ultimately show ?thesis
    using yum_db_dbinfo_update_appends [of "''0123abcd''" "sqlite3_new\<lparr>db_info := Some []\<rparr>" "[]" 10]
    by simp
qed

text \<open>
  Claim C3 as stated fails: a stamp that is in \<open>db_info\<close> stays, and the table holds
  two rows after the update.
\<close>

theorem yum_db_dbinfo_update_counterexample:
  "sql_text_safe ''new''
   \<and> map_option (db_info \<circ> fst) (yum_db_dbinfo_update 10
        (sqlite3_new\<lparr>db_info := Some [\<lparr>dbversion = 10, dbchecksum = ''old''\<rparr>]\<rparr>) ''new'')
     = Some (Some [\<lparr>dbversion = 10, dbchecksum = ''old''\<rparr>, \<lparr>dbversion = 10, dbchecksum = ''new''\<rparr>])"
  by (simp add: yum_db_dbinfo_update_def g_strdup_printf_insert_db_info_def sql_text_safe_def)

text \<open>
  Claim C5, amended. When \<open>yum_db_dbinfo_update\<close> has written the stamp of a checksum
  without a quote character, it has set no error, and opening the file with the same
  checksum and the same compiled version finds the cache current (no connection, no
  error, the file as it is) exactly when \<open>db_info\<close> held no row before the update, as
  in a connection that \<open>yum_db_open\<close> returns, or its first row was that stamp
  already: \<open>dbinfo_status\<close> reads the first row, and the update adds its row last.
\<close>

theorem yum_db_open_after_update_current:
  assumes "sql_text_safe checksum"
    and "db_info db = Some stamps"
    and "yum_db_dbinfo_update cache_dbversion db checksum = Some (db', err)"
    and "map_of fs path = Some (DbFile db')"
  shows "err = None
         \<and> (yum_db_open cache_dbversion fs path checksum create_tables = (fs, None, None)
              \<longleftrightarrow> stamps = []
                  \<or> (dbversion (hd stamps) = cache_dbversion \<and> dbchecksum (hd stamps) = checksum))"
proof -
  let ?new = "\<lparr>dbversion = cache_dbversion, dbchecksum = checksum\<rparr>"
  from assms(1,2,3) have err: "err = None"
    and db': "db_info db' = Some (stamps @ [?new])"
    by (auto simp: yum_db_dbinfo_update_def g_strdup_printf_insert_db_info_def)
  have "yum_db_open cache_dbversion fs path checksum create_tables = (fs, None, None)
          \<longleftrightarrow> stamps = []
              \<or> (dbversion (hd stamps) = cache_dbversion \<and> dbchecksum (hd stamps) = checksum)"
  proof (cases stamps)
    case Nil
    with db' assms(4) show ?thesis
      by (simp add: open_defs)
  next
    case (Cons s rest)
    have upd: "AList.update path (DbFile db') fs = fs"
      using assms(4) by (rule update_triv)
    show ?thesis
    proof (cases "dbversion s = cache_dbversion")
      case False
      with Cons db' assms(4) upd show ?thesis
        by (simp add: open_defs)
    next
      case True
      with Cons db' assms(4) show ?thesis
        by (auto simp: open_defs split: prod.splits)
    qed
  qed
  with err show ?thesis by simp
qed

theorem yum_db_open_after_update_current_witness:
  "yum_db_open 10
     [(''other.sqlite'', DbFile ((fresh_schema Other)\<lparr>db_info := Some [\<lparr>dbversion = 10, dbchecksum = ''0123abcd''\<rparr>]\<rparr>))]
     ''other.sqlite'' ''0123abcd'' yum_db_create_other_tables
   = ([(''other.sqlite'', DbFile ((fresh_schema Other)\<lparr>db_info := Some [\<lparr>dbversion = 10, dbchecksum = ''0123abcd''\<rparr>]\<rparr>))],
      None, None)"
proof -
  let ?db' = "(fresh_schema Other)\<lparr>db_info := Some [\<lparr>dbversion = 10, dbchecksum = ''0123abcd''\<rparr>]\<rparr>"
  have 1: "sql_text_safe ''0123abcd''"
    by (simp add: sql_text_safe_def)
  have 2: "db_info (fresh_schema Other) = Some []"
    by code_simp
  have 3: "yum_db_dbinfo_update 10 (fresh_schema Other) ''0123abcd'' = Some (?db', None)"
    using 2 by (simp add: yum_db_dbinfo_update_def g_strdup_printf_insert_db_info_def sql_text_safe_def)
  have 4: "map_of [(''other.sqlite'', DbFile ?db')] ''other.sqlite'' = Some (DbFile ?db')"
    by simp
  from yum_db_open_after_update_current
      [where fs = "[(''other.sqlite'', DbFile ?db')]" and path = "''other.sqlite''"
         and create_tables = yum_db_create_other_tables, OF 1 2 3 4]
  show ?thesis by simp
qed

text \<open>
  Claim C5 as stated fails: a stamp written after an older one of another checksum is
  not the one read, and opening the file with the checksum just written returns a
  connection with the stamps deleted, as for a checksum mismatch.
\<close>

theorem yum_db_open_after_update_counterexample:
  "sql_text_safe ''new''
   \<and> yum_db_dbinfo_update 10
        ((fresh_schema Other)\<lparr>db_info := Some [\<lparr>dbversion = 10, dbchecksum = ''old''\<rparr>]\<rparr>) ''new''
     = Some ((fresh_schema Other)\<lparr>db_info := Some [\<lparr>dbversion = 10, dbchecksum = ''old''\<rparr>,
                                                      \<lparr>dbversion = 10, dbchecksum = ''new''\<rparr>]\<rparr>, None)
   \<and> yum_db_open 10
        [(''other.sqlite'',
          DbFile ((fresh_schema Other)\<lparr>db_info := Some [\<lparr>dbversion = 10, dbchecksum = ''old''\<rparr>,
                                                         \<lparr>dbversion = 10, dbchecksum = ''new''\<rparr>]\<rparr>))]
        ''other.sqlite'' ''new'' yum_db_create_other_tables
     = ([(''other.sqlite'', DbFile (fresh_schema Other))], Some (fresh_schema Other), None)"
proof -
  have 1: "sql_text_safe ''new''"
    by (simp add: sql_text_safe_def)
  have 2: "yum_db_dbinfo_update 10
        ((fresh_schema Other)\<lparr>db_info := Some [\<lparr>dbversion = 10, dbchecksum = ''old''\<rparr>]\<rparr>) ''new''
     = Some ((fresh_schema Other)\<lparr>db_info := Some [\<lparr>dbversion = 10, dbchecksum = ''old''\<rparr>,
                                                      \<lparr>dbversion = 10, dbchecksum = ''new''\<rparr>]\<rparr>, None)"
    by (simp add: yum_db_dbinfo_update_def g_strdup_printf_insert_db_info_def sql_text_safe_def)
  have t: "triggers_on (fresh_schema Other) ''db_info'' = []"
    by code_simp
  have e: "(fresh_schema Other)\<lparr>db_info := Some []\<rparr> = fresh_schema Other"
    by code_simp
  have 3: "yum_db_open 10
        [(''other.sqlite'',
          DbFile ((fresh_schema Other)\<lparr>db_info := Some [\<lparr>dbversion = 10, dbchecksum = ''old''\<rparr>,
                                                         \<lparr>dbversion = 10, dbchecksum = ''new''\<rparr>]\<rparr>))]
        ''other.sqlite'' ''new'' yum_db_create_other_tables
     = ([(''other.sqlite'', DbFile (fresh_schema Other))], Some (fresh_schema Other), None)"
    using t by (simp add: open_defs triggers_on_def e)
  from 1 2 3 show ?thesis by blast
qed
section \<open>Properties of the row writers\<close>


lemma sqlite3_step_done:
  "\<not> step_will_fail db \<Longrightarrow> map_of (tables db) (stmt_table stmt) = Some t \<Longrightarrow>
     sqlite3_step db stmt =
       (SQLITE_DONE,
        db\<lparr>step_errors := tl (step_errors db),
           tables := AList.update (stmt_table stmt) (t\<lparr>rows := rows t @ [new_row t stmt]\<rparr>) (tables db),
           last_insert_rowid := next_rowid t\<rparr>)"
  by (simp add: sqlite3_step_def)

lemmas bind_defs = sqlite3_bind_text_def sqlite3_bind_int_def sqlite3_bind_def

subsection \<open>The rows of the two loops\<close>






subsection \<open>A step that fails\<close>



text \<open>
  Claim C9. In a database with the Primary schema, \<open>yum_db_file_write\<close> with the
  statement of \<open>yum_db_file_prepare\<close> adds one row to \<open>files\<close> whose \<open>name\<close> column
  holds the type of the file and whose \<open>type\<close> column holds its path: parameter 1, the
  column \<open>name\<close>, is bound to \<open>file->type\<close>, and parameter 2 to \<open>file->name\<close>.
\<close>

theorem yum_db_file_write_columns:
  assumes "has_schema_of db (fresh_schema Primary)"
    and "yum_db_file_prepare db = (Some handle, err)"
    and "\<not> step_will_fail db"
  shows "\<exists>t row db'.
           map_of (tables db) ''files'' = Some t
         \<and> yum_db_file_write db handle pkgKey entry = (db', [])
         \<and> map_of (tables db') ''files'' = Some (t\<lparr>rows := rows t @ [row]\<rparr>)
         \<and> map_of (cells row) ''name'' = Some (SQL_TEXT (file_type entry))
         \<and> map_of (cells row) ''type'' = Some (SQL_TEXT (file_name entry))"
proof -
  from has_schema_of_table [OF assms(1) primary_files_table]
  obtain t where t: "map_of (tables db) ''files'' = Some t"
    and cols: "columns t = [(''name'', TEXT), (''type'', TEXT), (''pkgKey'', TEXT)]"
    by blast
  from assms(2) have h: "handle = \<lparr>stmt_table = ''files'', stmt_columns = [''name'', ''type'', ''pkgKey''],
      stmt_bound = [SQL_NULL, SQL_NULL, SQL_NULL]\<rparr>"
    by (auto simp: yum_db_file_prepare_def sqlite3_prepare_def split: if_splits)
  let ?row = "\<lparr>rowid = next_rowid t,
      cells = [(''name'', SQL_TEXT (file_type entry)), (''type'', SQL_TEXT (file_name entry)),
               (''pkgKey'', SQL_INTEGER (sint (ucast pkgKey :: 32 word)))]\<rparr>"
  have "yum_db_file_write db handle pkgKey entry =
          (db\<lparr>step_errors := tl (step_errors db),
              tables := AList.update ''files'' (t\<lparr>rows := rows t @ [?row]\<rparr>) (tables db),
              last_insert_rowid := next_rowid t\<rparr>, [])"
    using assms(3) t cols
    by (simp add: yum_db_file_write_def h bind_defs sqlite3_step_done new_row_def)
  then show ?thesis using t by (auto simp: update_conv')
qed

theorem yum_db_file_write_columns_witness:
  "newest_cell (fst (yum_db_file_write (fresh_schema Primary)
       \<lparr>stmt_table = ''files'', stmt_columns = [''name'', ''type'', ''pkgKey''],
        stmt_bound = [SQL_NULL, SQL_NULL, SQL_NULL]\<rparr>
       1 \<lparr>file_type = ''dir'', file_name = ''/usr/bin''\<rparr>)) ''files'' ''name''
     = Some (SQL_TEXT ''dir'')
   \<and> newest_cell (fst (yum_db_file_write (fresh_schema Primary)
       \<lparr>stmt_table = ''files'', stmt_columns = [''name'', ''type'', ''pkgKey''],
        stmt_bound = [SQL_NULL, SQL_NULL, SQL_NULL]\<rparr>
       1 \<lparr>file_type = ''dir'', file_name = ''/usr/bin''\<rparr>)) ''files'' ''type''
     = Some (SQL_TEXT ''/usr/bin'')"
proof -
  let ?handle = "\<lparr>stmt_table = ''files'', stmt_columns = [''name'', ''type'', ''pkgKey''],
        stmt_bound = [SQL_NULL, SQL_NULL, SQL_NULL]\<rparr>"
  have 1: "has_schema_of (fresh_schema Primary) (fresh_schema Primary)"
    by (simp add: has_schema_of_def)
  have 2: "yum_db_file_prepare (fresh_schema Primary) = (Some ?handle, None)"
    by code_simp
  have 3: "\<not> step_will_fail (fresh_schema Primary)"
    by code_simp
  from yum_db_file_write_columns [OF 1 2 3, of 1 "\<lparr>file_type = ''dir'', file_name = ''/usr/bin''\<rparr>"]
  show ?thesis
    by (auto simp: newest_cell_def)
qed

subsection \<open>The key of the package\<close>

lemma sint_ucast_64_32:
  fixes k :: "64 word"
  shows "sint (ucast k :: 32 word) = signed_take_bit 31 (sint k)"
proof -
  have "sint (ucast k :: 32 word) = signed_take_bit 31 (take_bit 32 (uint k))"
    by (simp add: sint_uint unsigned_ucast_eq)
  also have "\<dots> = signed_take_bit 31 (uint k)"
    by (simp add: signed_take_bit_take_bit)
  also have "\<dots> = signed_take_bit 31 (signed_take_bit 63 (uint k))"
    by (simp add: signed_take_bit_signed_take_bit)
  also have "\<dots> = signed_take_bit 31 (sint k)"
    by (simp add: sint_uint)
  finally show ?thesis .
qed

lemma newest_cell_update:
  "newest_cell (db\<lparr>tables := AList.update table (t\<lparr>rows := rs @ [row]\<rparr>) ts\<rparr>) table col
     = map_of (cells row) col"
  by (simp add: newest_cell_def update_conv')

lemma newest_cell_more [simp]:
  "newest_cell (db\<lparr>step_errors := e\<rparr>) table col = newest_cell db table col"
  "newest_cell (db\<lparr>last_insert_rowid := n\<rparr>) table col = newest_cell db table col"
  by (simp_all add: newest_cell_def)

text \<open>
  Claim C10. The dependency writer, the per-file writer and the writer of the compacted
  file lists bind the 64-bit \<open>pkgKey\<close> with \<open>sqlite3_bind_int\<close>: the \<open>pkgKey\<close> cell of
  the row they add holds the low 32 bits of the key read as a signed number, that is the
  key reduced modulo \<open>2 ^ 32\<close> into the signed 32-bit range, which is the key itself
  exactly when the key is in that range.
\<close>

theorem pkgKey_bound_as_int:
  fixes pkgKey :: "64 word"
  assumes "has_schema_of db (fresh_schema Primary)"
    and "\<not> step_will_fail db"
    and "table \<in> {''requires'', ''provides'', ''conflicts'', ''obsoletes''}"
    and "yum_db_dependency_prepare db table = (Some dep_handle, dep_err)"
    and "yum_db_file_prepare db = (Some file_handle, file_err)"
    and "has_schema_of fdb (fresh_schema FileLists)"
    and "\<not> step_will_fail fdb"
    and "yum_db_filelists_prepare fdb = (Some list_handle, list_err)"
  shows "newest_cell (fst (yum_db_dependency_write db dep_handle pkgKey dep)) table ''pkgKey''
           = Some (SQL_INTEGER (sint (ucast pkgKey :: 32 word)))
       \<and> newest_cell (fst (yum_db_file_write db file_handle pkgKey entry)) ''files'' ''pkgKey''
           = Some (SQL_INTEGER (sint (ucast pkgKey :: 32 word)))
       \<and> newest_cell (fst (write_file key enc
             \<lparr>info_db = fdb, info_handle = list_handle, info_pkgKey = pkgKey\<rparr>)) ''filelist'' ''pkgKey''
           = Some (SQL_INTEGER (sint (ucast pkgKey :: 32 word)))
       \<and> sint (ucast pkgKey :: 32 word) = (sint pkgKey + 2 ^ 31) mod 2 ^ 32 - 2 ^ 31
       \<and> (sint (ucast pkgKey :: 32 word) = sint pkgKey
            \<longleftrightarrow> - (2 ^ 31) \<le> sint pkgKey \<and> sint pkgKey < 2 ^ 31)"
proof -
  from has_schema_of_table [OF assms(1) primary_dependency_table [OF assms(3)]]
  obtain dt where dt: "map_of (tables db) table = Some dt"
    and dcols: "columns dt = [(''name'', TEXT), (''flags'', TEXT), (''epoch'', TEXT),
      (''version'', TEXT), (''release'', TEXT), (''pkgKey'', TEXT)]"
    by blast
  from assms(4) have dh: "dep_handle = \<lparr>stmt_table = table,
      stmt_columns = [''name'', ''flags'', ''epoch'', ''version'', ''release'', ''pkgKey''],
      stmt_bound = [SQL_NULL, SQL_NULL, SQL_NULL, SQL_NULL, SQL_NULL, SQL_NULL]\<rparr>"
    by (auto simp: yum_db_dependency_prepare_def sqlite3_prepare_def split: if_splits)
  have 1: "newest_cell (fst (yum_db_dependency_write db dep_handle pkgKey dep)) table ''pkgKey''
           = Some (SQL_INTEGER (sint (ucast pkgKey :: 32 word)))"
    using assms(2) dt dcols
    by (simp add: yum_db_dependency_write_def dh bind_defs sqlite3_step_done new_row_def
        newest_cell_update)
  from has_schema_of_table [OF assms(1) primary_files_table]
  obtain ft where ft: "map_of (tables db) ''files'' = Some ft"
    and fcols: "columns ft = [(''name'', TEXT), (''type'', TEXT), (''pkgKey'', TEXT)]"
    by blast
  from assms(5) have fh: "file_handle = \<lparr>stmt_table = ''files'',
      stmt_columns = [''name'', ''type'', ''pkgKey''],
      stmt_bound = [SQL_NULL, SQL_NULL, SQL_NULL]\<rparr>"
    by (auto simp: yum_db_file_prepare_def sqlite3_prepare_def split: if_splits)
  have 2: "newest_cell (fst (yum_db_file_write db file_handle pkgKey entry)) ''files'' ''pkgKey''
           = Some (SQL_INTEGER (sint (ucast pkgKey :: 32 word)))"
    using assms(2) ft fcols
    by (simp add: yum_db_file_write_def fh bind_defs sqlite3_step_done new_row_def
        newest_cell_update)
  from has_schema_of_table [OF assms(6) filelists_filelist_table]
  obtain lt where lt: "map_of (tables fdb) ''filelist'' = Some lt"
    and lcols: "columns lt = [(''pkgKey'', INTEGER), (''dirname'', TEXT), (''filenames'', TEXT),
      (''filetypes'', TEXT)]"
    by blast
  from assms(8) have lh: "list_handle = \<lparr>stmt_table = ''filelist'',
      stmt_columns = [''pkgKey'', ''dirname'', ''filenames'', ''filetypes''],
      stmt_bound = [SQL_NULL, SQL_NULL, SQL_NULL, SQL_NULL]\<rparr>"
    by (auto simp: yum_db_filelists_prepare_def sqlite3_prepare_def split: if_splits)
  have 3: "newest_cell (fst (write_file key enc
             \<lparr>info_db = fdb, info_handle = list_handle, info_pkgKey = pkgKey\<rparr>)) ''filelist'' ''pkgKey''
           = Some (SQL_INTEGER (sint (ucast pkgKey :: 32 word)))"
    using assms(7) lt lcols
    by (simp add: write_file_def lh bind_defs sqlite3_step_done new_row_def newest_cell_update)
  have 4: "sint (ucast pkgKey :: 32 word) = (sint pkgKey + 2 ^ 31) mod 2 ^ 32 - 2 ^ 31"
    by (simp add: sint_ucast_64_32 signed_take_bit_eq_take_bit_shift take_bit_eq_mod)
  have 5: "(sint (ucast pkgKey :: 32 word) = sint pkgKey
            \<longleftrightarrow> - (2 ^ 31) \<le> sint pkgKey \<and> sint pkgKey < 2 ^ 31)"
    by (simp add: sint_ucast_64_32 signed_take_bit_int_eq_self_iff)
  from 1 2 3 4 5 show ?thesis by blast
qed

theorem pkgKey_bound_as_int_witness:
  "newest_cell (fst (yum_db_dependency_write (fresh_schema Primary)
       \<lparr>stmt_table = ''provides'',
        stmt_columns = [''name'', ''flags'', ''epoch'', ''version'', ''release'', ''pkgKey''],
        stmt_bound = [SQL_NULL, SQL_NULL, SQL_NULL, SQL_NULL, SQL_NULL, SQL_NULL]\<rparr>
       4294967301
       \<lparr>dep_name = ''glibc'', dep_flags = ''GE'', dep_epoch = ''0'', dep_version = ''2.3'',
         dep_release = ''1''\<rparr>)) ''provides'' ''pkgKey''
     = Some (SQL_INTEGER 5)
   \<and> sint (4294967301 :: 64 word) = 4294967301"
proof -
  let ?dh = "\<lparr>stmt_table = ''provides'',
        stmt_columns = [''name'', ''flags'', ''epoch'', ''version'', ''release'', ''pkgKey''],
        stmt_bound = [SQL_NULL, SQL_NULL, SQL_NULL, SQL_NULL, SQL_NULL, SQL_NULL]\<rparr>"
  let ?fh = "\<lparr>stmt_table = ''files'', stmt_columns = [''name'', ''type'', ''pkgKey''],
        stmt_bound = [SQL_NULL, SQL_NULL, SQL_NULL]\<rparr>"
  let ?lh = "\<lparr>stmt_table = ''filelist'',
        stmt_columns = [''pkgKey'', ''dirname'', ''filenames'', ''filetypes''],
        stmt_bound = [SQL_NULL, SQL_NULL, SQL_NULL, SQL_NULL]\<rparr>"
  have 1: "has_schema_of (fresh_schema Primary) (fresh_schema Primary)"
    by (simp add: has_schema_of_def)
  have 2: "\<not> step_will_fail (fresh_schema Primary)"
    by code_simp
  have 3: "''provides'' \<in> {''requires'', ''provides'', ''conflicts'', ''obsoletes''}"
    by simp
  have 4: "yum_db_dependency_prepare (fresh_schema Primary) ''provides'' = (Some ?dh, None)"
    by code_simp
  have 5: "yum_db_file_prepare (fresh_schema Primary) = (Some ?fh, None)"
    by code_simp
  have 6: "has_schema_of (fresh_schema FileLists) (fresh_schema FileLists)"
    by (simp add: has_schema_of_def)
  have 7: "\<not> step_will_fail (fresh_schema FileLists)"
    by code_simp
  have 8: "yum_db_filelists_prepare (fresh_schema FileLists) = (Some ?lh, None)"
    by code_simp
  have 9: "sint (ucast (4294967301 :: 64 word) :: 32 word) = 5"
    by simp
  have 10: "sint (4294967301 :: 64 word) = 4294967301"
    by simp
  from pkgKey_bound_as_int [OF 1 2 3 4 5 6 7 8, of 4294967301] 9 10 show ?thesis
    by simp
qed

subsection \<open>The writers keep the schema\<close>

text \<open>
  A step adds rows and nothing else, so a database that has the schema of a kind has it
  after every write; the hypothesis \<open>has_schema_of\<close> of the statements above and below
  holds all along a rebuild.
\<close>

lemma map_columns_update:
  assumes "map_of ts name = Some t" and "columns t' = columns t"
  shows "map (\<lambda>t. (fst t, columns (snd t))) (AList.update name t' ts)
           = map (\<lambda>t. (fst t, columns (snd t))) ts"
  using assms by (induction ts) (auto split: if_splits)

lemma sqlite3_step_has_schema_of:
  assumes "has_schema_of db schema"
  shows "has_schema_of (snd (sqlite3_step db stmt)) schema"
proof (cases "map_of (tables db) (stmt_table stmt)")
  case None
  with assms show ?thesis
    by (simp add: sqlite3_step_def has_schema_of_def Let_def)
next
  case (Some t)
  then have "map (\<lambda>t. (fst t, columns (snd t)))
               (AList.update (stmt_table stmt) (t\<lparr>rows := rows t @ [new_row t stmt]\<rparr>) (tables db))
             = map (\<lambda>t. (fst t, columns (snd t))) (tables db)"
    by (intro map_columns_update) simp_all
  with assms Some show ?thesis
    by (simp add: sqlite3_step_def has_schema_of_def Let_def)
qed

lemma yum_db_file_write_has_schema_of:
  "has_schema_of db schema \<Longrightarrow> has_schema_of (fst (yum_db_file_write db handle pkgKey entry)) schema"
  using sqlite3_step_has_schema_of [of db schema]
  by (simp add: yum_db_file_write_def Let_def split: prod.split) (metis snd_conv)

lemma yum_db_dependency_write_has_schema_of:
  "has_schema_of db schema \<Longrightarrow>
     has_schema_of (fst (yum_db_dependency_write db handle pkgKey dep)) schema"
  using sqlite3_step_has_schema_of [of db schema]
  by (simp add: yum_db_dependency_write_def Let_def split: prod.split) (metis snd_conv)

lemma yum_db_dbinfo_update_has_schema_of:
  "has_schema_of db schema \<Longrightarrow> yum_db_dbinfo_update cache_dbversion db checksum = Some (db', err) \<Longrightarrow>
     has_schema_of db' schema"
  by (auto simp: yum_db_dbinfo_update_def g_strdup_printf_insert_db_info_def has_schema_of_def
      split: option.splits if_splits)
section \<open>Deleting a package\<close>

lemma rows_of_others_idem [simp]:
  "rows_of_others key (rows_of_others key t) = rows_of_others key t"
  by (simp add: rows_of_others_def)

lemma delete_where_pkgKey_tables:
  "map_of (tables (delete_where_pkgKey key n db)) m =
     (if m = n then map_option (rows_of_others key) (map_of (tables db) m)
      else map_of (tables db) m)"
  by (simp add: delete_where_pkgKey_def rows_of_others_def update_conv' split: option.split)

lemma delete_where_pkgKey_triggers [simp]:
  "triggers (delete_where_pkgKey key n db) = triggers db"
  by (simp add: delete_where_pkgKey_def split: option.split)

lemma fold_delete_where_pkgKey_tables:
  "map_of (tables (fold (delete_where_pkgKey key) targets db)) m =
     (if m \<in> set targets then map_option (rows_of_others key) (map_of (tables db) m)
      else map_of (tables db) m)"
proof (induction targets arbitrary: db)
  case Nil
  then show ?case by simp
next
  case (Cons n targets)
  show ?case
    by (simp add: Cons.IH delete_where_pkgKey_tables option.map_comp comp_def)
qed

lemma fold_delete_where_pkgKey_triggers [simp]:
  "triggers (fold (delete_where_pkgKey key) targets db) = triggers db"
  by (induction targets arbitrary: db) simp_all

lemma fired_tables:
  "map_of (tables (fold (\<lambda>old. fold (delete_where_pkgKey key) targets) deleted db)) m =
     (if deleted \<noteq> [] \<and> m \<in> set targets
      then map_option (rows_of_others key) (map_of (tables db) m)
      else map_of (tables db) m)"
proof (induction deleted arbitrary: db)
  case Nil
  then show ?case by simp
next
  case (Cons old deleted)
  show ?case
    by (simp add: Cons.IH fold_delete_where_pkgKey_tables option.map_comp comp_def)
qed

lemma fired_triggers [simp]:
  "triggers (fold (\<lambda>old. fold (delete_where_pkgKey key) targets) deleted db) = triggers db"
  by (induction deleted arbitrary: db) simp_all

lemma fresh_schema_fired:
  "concat (map trigger_deletes (triggers_on (fresh_schema kind) ''packages'')) = dependent_tables kind"
  by (cases kind; hypsubst; code_simp)

lemma fresh_schema_dependent:
  assumes "n \<in> set (dependent_tables kind)"
  shows "\<exists>cols. map_of (tables (fresh_schema kind)) n = Some \<lparr>columns = cols, rows = []\<rparr>
           \<and> ''pkgKey'' \<in> set (map fst cols) \<and> n \<noteq> ''db_info'' \<and> n \<noteq> ''packages''"
proof (cases kind)
  case Primary
  with assms have "n = ''files'' \<or> n \<in> {''requires'', ''provides'', ''conflicts'', ''obsoletes''}"
    by auto
  then show ?thesis
  proof
    assume "n = ''files''"
    with Primary primary_files_table show ?thesis by simp
  next
    assume n: "n \<in> {''requires'', ''provides'', ''conflicts'', ''obsoletes''}"
    from primary_dependency_table [OF n] Primary n show ?thesis by auto
  qed
next
  case FileLists
  with assms filelists_filelist_table show ?thesis by simp
next
  case Other
  with assms other_changelog_table show ?thesis by simp
qed

lemma has_schema_of_dependent:
  assumes "has_schema_of db (fresh_schema kind)"
    and "n \<in> set (dependent_tables kind)"
  shows "n \<noteq> ''db_info'' \<and> n \<noteq> ''packages'' \<and> table_has_column db n ''pkgKey''
         \<and> map_of (tables db) n \<noteq> None"
proof -
  from fresh_schema_dependent [OF assms(2)]
  obtain cols where c: "map_of (tables (fresh_schema kind)) n = Some \<lparr>columns = cols, rows = []\<rparr>"
    and k: "''pkgKey'' \<in> set (map fst cols)" and n: "n \<noteq> ''db_info''" "n \<noteq> ''packages''"
    by blast
  from has_schema_of_table [OF assms(1) c]
  obtain t where "map_of (tables db) n = Some t" "columns t = cols"
    by blast
  with k n show ?thesis by (simp add: table_has_column_def)
qed

lemma fresh_schema_packages:
  "map_option rows (map_of (tables (fresh_schema kind)) ''packages'') = Some []"
  by (cases kind; hypsubst; code_simp)

lemma has_schema_of_packages:
  assumes "has_schema_of db (fresh_schema kind)"
  shows "\<exists>packages. map_of (tables db) ''packages'' = Some packages"
  using has_schema_of_columns [OF assms, of "''packages''"] fresh_schema_packages [of kind]
  by (cases "map_of (tables db) ''packages''") auto

lemma has_schema_of_with_rows: "has_schema_of (with_rows stored db) db"
  by (simp add: has_schema_of_def with_rows_def comp_def)

text \<open>
  Claim C7. For each kind, the function that creates its tables succeeds on a fresh file,
  and every database with the schema it creates, whatever its rows, has the table
  \<open>packages\<close>; deleting the row of a package there runs the trigger that the function
  declares on \<open>packages\<close>: in every dependent table of the kind the rows whose
  \<open>pkgKey\<close> is that of the package are removed, and the rows of every other
  \<open>pkgKey\<close> stay, in their order; the statement is the deletion alone, and the
  cascade is the trigger's.
\<close>

theorem package_delete_cascades:
  assumes "has_schema_of db (fresh_schema kind)"
  shows "create_tables_of kind (fst (yum_db_create_dbinfo_table sqlite3_new))
           = (fresh_schema kind, None)
       \<and> (\<exists>packages.
             map_of (tables db) ''packages'' = Some packages
           \<and> (\<forall>package key dependent.
                 package \<in> set (rows packages)
                 \<and> map_of (cells package) ''pkgKey'' = Some (SQL_INTEGER key)
                 \<and> dependent \<in> set (dependent_tables kind) \<longrightarrow>
                 (\<exists>db' t.
                    sqlite3_exec db (DELETE_FROM_packages_WHERE_pkgKey key) = (SQLITE_OK, db')
                  \<and> map_of (tables db') ''packages'' = Some (rows_of_others key packages)
                  \<and> map_of (tables db) dependent = Some t
                  \<and> map_of (tables db') dependent = Some (rows_of_others key t)
                  \<and> triggers db' = triggers db)))"
proof -
  from has_schema_of_packages [OF assms]
  obtain packages where packages: "map_of (tables db) ''packages'' = Some packages"
    by blast
  have cascade: "\<exists>db' t.
        sqlite3_exec db (DELETE_FROM_packages_WHERE_pkgKey key) = (SQLITE_OK, db')
      \<and> map_of (tables db') ''packages'' = Some (rows_of_others key packages)
      \<and> map_of (tables db) dependent = Some t
      \<and> map_of (tables db') dependent = Some (rows_of_others key t)
      \<and> triggers db' = triggers db"
    if package: "package \<in> set (rows packages)"
      and key: "map_of (cells package) ''pkgKey'' = Some (SQL_INTEGER key)"
      and dependent: "dependent \<in> set (dependent_tables kind)"
    for package key dependent
  proof -
    let ?targets = "concat (map trigger_deletes (triggers_on db ''packages''))"
    let ?deleted = "filter (\<lambda>r. map_of (cells r) ''pkgKey'' = Some (SQL_INTEGER key)) (rows packages)"
    let ?db' = "fold (\<lambda>old. fold (delete_where_pkgKey key) ?targets) ?deleted
                  (delete_where_pkgKey key ''packages'' db)"
    from assms have "triggers_on db ''packages'' = triggers_on (fresh_schema kind) ''packages''"
      by (simp add: has_schema_of_def triggers_on_def)
    then have targets: "?targets = dependent_tables kind"
      by (simp add: fresh_schema_fired)
    have ok: "list_all (\<lambda>n. n \<noteq> ''db_info'' \<and> table_has_column db n ''pkgKey'') ?targets"
      unfolding targets list_all_iff using has_schema_of_dependent [OF assms] by blast
    have deleted: "?deleted \<noteq> []"
      using package key by (auto simp: filter_empty_conv)
    have exec: "sqlite3_exec db (DELETE_FROM_packages_WHERE_pkgKey key) = (SQLITE_OK, ?db')"
      using packages ok by (simp add: Let_def)
    from has_schema_of_dependent [OF assms dependent]
    obtain t where t: "map_of (tables db) dependent = Some t" and ne: "dependent \<noteq> ''packages''"
      by auto
    have "''packages'' \<notin> set (dependent_tables kind)"
      using has_schema_of_dependent [OF assms, of "''packages''"] by blast
    then have p: "map_of (tables ?db') ''packages'' = Some (rows_of_others key packages)"
      using packages by (simp add: fired_tables targets delete_where_pkgKey_tables)
    have d: "map_of (tables ?db') dependent = Some (rows_of_others key t)"
      using dependent t ne deleted
      by (simp add: fired_tables targets delete_where_pkgKey_tables)
    have "triggers ?db' = triggers db"
      by simp
    with exec p t d show ?thesis by blast
  qed
  from packages cascade create_tables_of_fresh [of kind] show ?thesis
    by blast
qed

text \<open>
  Two packages and, in every dependent table, two rows of the first and one of the
  second: deleting the first leaves the row of the second, in each of the three kinds.
\<close>

theorem package_delete_cascades_witness:
  "map_option (map rowid \<circ> rows)
     (map_of (tables (snd (sqlite3_exec
        (with_rows
           (\<lambda>name. if name = ''packages''
                       then [\<lparr>rowid = 1, cells = [(''pkgKey'', SQL_INTEGER 1), (''pkgId'', SQL_TEXT ''aa'')]\<rparr>,
                             \<lparr>rowid = 2, cells = [(''pkgKey'', SQL_INTEGER 2), (''pkgId'', SQL_TEXT ''bb'')]\<rparr>]
                       else [\<lparr>rowid = 1, cells = [(''pkgKey'', SQL_INTEGER 1)]\<rparr>,
                             \<lparr>rowid = 2, cells = [(''pkgKey'', SQL_INTEGER 2)]\<rparr>,
                             \<lparr>rowid = 3, cells = [(''pkgKey'', SQL_INTEGER 1)]\<rparr>])
           (fresh_schema Primary))
        (DELETE_FROM_packages_WHERE_pkgKey 1)))) ''files'')
     = Some [2]
   \<and> map_option (map rowid \<circ> rows)
     (map_of (tables (snd (sqlite3_exec
        (with_rows
           (\<lambda>name. if name = ''packages''
                       then [\<lparr>rowid = 1, cells = [(''pkgKey'', SQL_INTEGER 1), (''pkgId'', SQL_TEXT ''aa'')]\<rparr>,
                             \<lparr>rowid = 2, cells = [(''pkgKey'', SQL_INTEGER 2), (''pkgId'', SQL_TEXT ''bb'')]\<rparr>]
                       else [\<lparr>rowid = 1, cells = [(''pkgKey'', SQL_INTEGER 1)]\<rparr>,
                             \<lparr>rowid = 2, cells = [(''pkgKey'', SQL_INTEGER 2)]\<rparr>,
                             \<lparr>rowid = 3, cells = [(''pkgKey'', SQL_INTEGER 1)]\<rparr>])
           (fresh_schema Primary))
        (DELETE_FROM_packages_WHERE_pkgKey 1)))) ''obsoletes'')
     = Some [2]
   \<and> map_option (map rowid \<circ> rows)
     (map_of (tables (snd (sqlite3_exec
        (with_rows
           (\<lambda>name. if name = ''packages''
                       then [\<lparr>rowid = 1, cells = [(''pkgKey'', SQL_INTEGER 1), (''pkgId'', SQL_TEXT ''aa'')]\<rparr>,
                             \<lparr>rowid = 2, cells = [(''pkgKey'', SQL_INTEGER 2), (''pkgId'', SQL_TEXT ''bb'')]\<rparr>]
                       else [\<lparr>rowid = 1, cells = [(''pkgKey'', SQL_INTEGER 1)]\<rparr>,
                             \<lparr>rowid = 2, cells = [(''pkgKey'', SQL_INTEGER 2)]\<rparr>,
                             \<lparr>rowid = 3, cells = [(''pkgKey'', SQL_INTEGER 1)]\<rparr>])
           (fresh_schema FileLists))
        (DELETE_FROM_packages_WHERE_pkgKey 1)))) ''filelist'')
     = Some [2]
   \<and> map_option (map rowid \<circ> rows)
     (map_of (tables (snd (sqlite3_exec
        (with_rows
           (\<lambda>name. if name = ''packages''
                       then [\<lparr>rowid = 1, cells = [(''pkgKey'', SQL_INTEGER 1), (''pkgId'', SQL_TEXT ''aa'')]\<rparr>,
                             \<lparr>rowid = 2, cells = [(''pkgKey'', SQL_INTEGER 2), (''pkgId'', SQL_TEXT ''bb'')]\<rparr>]
                       else [\<lparr>rowid = 1, cells = [(''pkgKey'', SQL_INTEGER 1)]\<rparr>,
                             \<lparr>rowid = 2, cells = [(''pkgKey'', SQL_INTEGER 2)]\<rparr>,
                             \<lparr>rowid = 3, cells = [(''pkgKey'', SQL_INTEGER 1)]\<rparr>])
           (fresh_schema Other))
        (DELETE_FROM_packages_WHERE_pkgKey 1)))) ''changelog'')
     = Some [2]"
proof -
  let ?stored = "(\<lambda>name. if name = ''packages''
                       then [\<lparr>rowid = 1, cells = [(''pkgKey'', SQL_INTEGER 1), (''pkgId'', SQL_TEXT ''aa'')]\<rparr>,
                             \<lparr>rowid = 2, cells = [(''pkgKey'', SQL_INTEGER 2), (''pkgId'', SQL_TEXT ''bb'')]\<rparr>]
                       else [\<lparr>rowid = 1, cells = [(''pkgKey'', SQL_INTEGER 1)]\<rparr>,
                             \<lparr>rowid = 2, cells = [(''pkgKey'', SQL_INTEGER 2)]\<rparr>,
                             \<lparr>rowid = 3, cells = [(''pkgKey'', SQL_INTEGER 1)]\<rparr>])"
  let ?package = "\<lparr>rowid = 1, cells = [(''pkgKey'', SQL_INTEGER 1), (''pkgId'', SQL_TEXT ''aa'')]\<rparr>"
  have inst: "map_option (map rowid \<circ> rows)
        (map_of (tables (snd (sqlite3_exec (with_rows ?stored (fresh_schema kind))
           (DELETE_FROM_packages_WHERE_pkgKey 1)))) dependent) = Some [2]"
    if dependent: "dependent \<in> set (dependent_tables kind)" for kind dependent
  proof -
    let ?db = "with_rows ?stored (fresh_schema kind)"
    have schema: "has_schema_of ?db (fresh_schema kind)"
      by (simp add: has_schema_of_def with_rows_def comp_def)
    have rows_of: "rows t = ?stored name" if "map_of (tables ?db) name = Some t" for name t
      using that by (auto simp: with_rows_def dest!: map_of_SomeD)
    from package_delete_cascades [OF schema]
    obtain packages where packages: "map_of (tables ?db) ''packages'' = Some packages"
      and cascade: "\<And>package key dependent.
          package \<in> set (rows packages) \<Longrightarrow>
          map_of (cells package) ''pkgKey'' = Some (SQL_INTEGER key) \<Longrightarrow>
          dependent \<in> set (dependent_tables kind) \<Longrightarrow>
          \<exists>db' t.
              sqlite3_exec ?db (DELETE_FROM_packages_WHERE_pkgKey key) = (SQLITE_OK, db')
            \<and> map_of (tables db') ''packages'' = Some (rows_of_others key packages)
            \<and> map_of (tables ?db) dependent = Some t
            \<and> map_of (tables db') dependent = Some (rows_of_others key t)
            \<and> triggers db' = triggers ?db"
      by blast
    have "?package \<in> set (rows packages)"
      using rows_of [OF packages] by simp
    moreover have "map_of (cells ?package) ''pkgKey'' = Some (SQL_INTEGER 1)"
      by simp
    ultimately obtain db' t where
      exec: "sqlite3_exec ?db (DELETE_FROM_packages_WHERE_pkgKey 1) = (SQLITE_OK, db')"
      and t: "map_of (tables ?db) dependent = Some t"
      and t': "map_of (tables db') dependent = Some (rows_of_others 1 t)"
      using cascade [OF _ _ dependent] by blast
    have "dependent \<noteq> ''packages''"
      using dependent by (cases kind) auto
    with rows_of [OF t] have "map rowid (rows (rows_of_others 1 t)) = [2]"
      by (simp add: rows_of_others_def)
    with exec t' show ?thesis
      by simp
  qed
  have "''files'' \<in> set (dependent_tables Primary)"
    and "''obsoletes'' \<in> set (dependent_tables Primary)"
    and "''filelist'' \<in> set (dependent_tables FileLists)"
    and "''changelog'' \<in> set (dependent_tables Other)"
    by simp_all
  then show ?thesis
    using inst by blast
qed

end
